theory Spec2Isabelle
  imports Main "HOL-Library.Word"
begin

section \<open>The C boundary of the glslang binding (glue.cpp)\<close>

text \<open>
  \<^verbatim>\<open>glue.cpp\<close> exposes the classes \<^verbatim>\<open>glslang::TShader\<close> and
  \<^verbatim>\<open>glslang::TProgram\<close> as \<^verbatim>\<open>extern "C"\<close> functions over opaque
  \<^verbatim>\<open>void *\<close> handles. Every function body is one statement, or a cast of the handle
  followed by one statement. The embedding below follows the file function by function.
\<close>

subsection \<open>Scalar types\<close>

text \<open>
  A pointer is a 64-bit word and the null pointer is the word 0. \<^verbatim>\<open>int\<close> and
  \<^verbatim>\<open>unsigned int\<close> are 32-bit words, \<^verbatim>\<open>unsigned long long\<close> is a 64-bit
  word. Each C type is a type of its own, so that a pointer is never taken for a number. The
      enumerations the functions take and return are declared in the compiler's
  header, which is not part of the binding; an enumeration travels through the boundary
  as the 32-bit word that holds its enumerator.
\<close>

datatype addr = Addr "64 word"
datatype cint = Int32 "32 word"
datatype cuint = UInt32 "32 word"
datatype culonglong = UInt64 "64 word"

type_synonym EShLanguage = cint
type_synonym EShLanguageMask = cint
type_synonym EShSource = cint
type_synonym EShClient = cint
type_synonym EShTargetClientVersion = cint
type_synonym EShTargetLanguage = cint
type_synonym EShTargetLanguageVersion = cint
type_synonym EShMessages = cint
type_synonym EShTextureSamplerTransformMode = cint
type_synonym EProfile = cint
type_synonym TResourceType = cint
type_synonym TBlockStorageClass = cint

definition nullptr :: addr where
  "nullptr = Addr 0"

text \<open>
  Modelled from the spec: the structured version that \<^verbatim>\<open>GetVersion\<close> returns,
  "(major, minor, patch, flavor string)"; the structure is declared in the compiler's
  header. The flavor string is a \<^verbatim>\<open>const char *\<close>.
\<close>

record Version =
  major :: cint
  minor :: cint
  patch :: cint
  flavor :: addr

subsection \<open>The wrapped compiler\<close>

text \<open>
  The compiler itself is an external collaborator: none of its code is in the binding.
  It is a parameter of the embedding, a record with one field for every function,
  constructor, destructor and member function that \<^verbatim>\<open>glue.cpp\<close> calls. The type
  variable \<open>'w\<close> is the compiler's own state (the contents of its objects, its
  process-wide tables, its diagnostic sink). A member function takes the \<^verbatim>\<open>this\<close>
  pointer first. The field types follow the signatures the calls in \<^verbatim>\<open>glue.cpp\<close> show:
  a \<^verbatim>\<open>void\<close> member function changes the state, an accessor reads it, and
  \<^verbatim>\<open>InitializeProcess\<close>, \<^verbatim>\<open>parse\<close>, \<^verbatim>\<open>link\<close> and \<^verbatim>\<open>buildReflection\<close>
  return their flag together with the changed state. \<^verbatim>\<open>getStrings\<close> assigns to its two
  reference parameters; its field returns the pair it assigns.
  \<^verbatim>\<open>TShader'parse_reduced\<close> is the four-argument overload of \<^verbatim>\<open>TShader::parse\<close>.
  A field describes the call that returns; the exception a call may raise instead is
  a parameter of its own, in the subsection on exceptions below.

  Modelled from the spec: \<^verbatim>\<open>GetVersion\<close>, \<^verbatim>\<open>GetEsslVersionString\<close> and
  \<^verbatim>\<open>GetKhronosToolId\<close> take no input ("get_version | - | structured version") and
  are fixed for the lifetime of the process, so their fields are constants of the
  compiler.
\<close>

record 'w glslang =
  glslang'GetVersion :: "Version"
  glslang'GetEsslVersionString :: "addr"
  glslang'GetKhronosToolId :: "cint"
  glslang'InitializeProcess :: "'w \<Rightarrow> bool \<times> 'w"
  glslang'FinalizeProcess :: "'w \<Rightarrow> 'w"
  TShader'ctor :: "addr \<Rightarrow> EShLanguage \<Rightarrow> 'w \<Rightarrow> 'w"
  TShader'dtor :: "addr \<Rightarrow> 'w \<Rightarrow> 'w"
  TShader'setStrings :: "addr \<Rightarrow> addr \<Rightarrow> cint \<Rightarrow> 'w \<Rightarrow> 'w"
  TShader'setPreamble :: "addr \<Rightarrow> addr \<Rightarrow> 'w \<Rightarrow> 'w"
  TShader'setStringsWithLengths :: "addr \<Rightarrow> addr \<Rightarrow> addr \<Rightarrow> cint \<Rightarrow> 'w \<Rightarrow> 'w"
  TShader'setStringsWithLengthsAndNames :: "addr \<Rightarrow> addr \<Rightarrow> addr \<Rightarrow> addr \<Rightarrow> cint \<Rightarrow> 'w \<Rightarrow> 'w"
  TShader'setEntryPoint :: "addr \<Rightarrow> addr \<Rightarrow> 'w \<Rightarrow> 'w"
  TShader'setSourceEntryPoint :: "addr \<Rightarrow> addr \<Rightarrow> 'w \<Rightarrow> 'w"
  TShader'setUniqueId :: "addr \<Rightarrow> culonglong \<Rightarrow> 'w \<Rightarrow> 'w"
  TShader'setShiftBinding :: "addr \<Rightarrow> TResourceType \<Rightarrow> cuint \<Rightarrow> 'w \<Rightarrow> 'w"
  TShader'setShiftBindingForSet :: "addr \<Rightarrow> TResourceType \<Rightarrow> cuint \<Rightarrow> cuint \<Rightarrow> 'w \<Rightarrow> 'w"
  TShader'setAutoMapBindings :: "addr \<Rightarrow> bool \<Rightarrow> 'w \<Rightarrow> 'w"
  TShader'setAutoMapLocations :: "addr \<Rightarrow> bool \<Rightarrow> 'w \<Rightarrow> 'w"
  TShader'addUniformLocationOverride :: "addr \<Rightarrow> addr \<Rightarrow> cint \<Rightarrow> 'w \<Rightarrow> 'w"
  TShader'setUniformLocationBase :: "addr \<Rightarrow> cint \<Rightarrow> 'w \<Rightarrow> 'w"
  TShader'setInvertY :: "addr \<Rightarrow> bool \<Rightarrow> 'w \<Rightarrow> 'w"
  TShader'setNoStorageFormat :: "addr \<Rightarrow> bool \<Rightarrow> 'w \<Rightarrow> 'w"
  TShader'setNanMinMaxClamp :: "addr \<Rightarrow> bool \<Rightarrow> 'w \<Rightarrow> 'w"
  TShader'setTextureSamplerTransformMode :: "addr \<Rightarrow> EShTextureSamplerTransformMode \<Rightarrow> 'w \<Rightarrow> 'w"
  TShader'addBlockStorageOverride :: "addr \<Rightarrow> addr \<Rightarrow> TBlockStorageClass \<Rightarrow> 'w \<Rightarrow> 'w"
  TShader'setGlobalUniformBlockName :: "addr \<Rightarrow> addr \<Rightarrow> 'w \<Rightarrow> 'w"
  TShader'setAtomicCounterBlockName :: "addr \<Rightarrow> addr \<Rightarrow> 'w \<Rightarrow> 'w"
  TShader'setGlobalUniformSet :: "addr \<Rightarrow> cuint \<Rightarrow> 'w \<Rightarrow> 'w"
  TShader'setGlobalUniformBinding :: "addr \<Rightarrow> cuint \<Rightarrow> 'w \<Rightarrow> 'w"
  TShader'setAtomicCounterBlockSet :: "addr \<Rightarrow> cuint \<Rightarrow> 'w \<Rightarrow> 'w"
  TShader'setAtomicCounterBlockBinding :: "addr \<Rightarrow> cuint \<Rightarrow> 'w \<Rightarrow> 'w"
  TShader'setEnvInput :: "addr \<Rightarrow> EShSource \<Rightarrow> EShLanguage \<Rightarrow> EShClient \<Rightarrow> cint \<Rightarrow> 'w \<Rightarrow> 'w"
  TShader'setEnvClient :: "addr \<Rightarrow> EShClient \<Rightarrow> EShTargetClientVersion \<Rightarrow> 'w \<Rightarrow> 'w"
  TShader'setEnvTarget :: "addr \<Rightarrow> EShTargetLanguage \<Rightarrow> EShTargetLanguageVersion \<Rightarrow> 'w \<Rightarrow> 'w"
  TShader'getStrings :: "addr \<Rightarrow> 'w \<Rightarrow> addr \<times> cint"
  TShader'getEnvTargetHlslFunctionality1 :: "addr \<Rightarrow> 'w \<Rightarrow> bool"
  TShader'setEnvInputVulkanRulesRelaxed :: "addr \<Rightarrow> 'w \<Rightarrow> 'w"
  TShader'getEnvInputVulkanRulesRelaxed :: "addr \<Rightarrow> 'w \<Rightarrow> bool"
  TShader'parse :: "addr \<Rightarrow> addr \<Rightarrow> cint \<Rightarrow> EProfile \<Rightarrow> bool \<Rightarrow> bool \<Rightarrow> EShMessages \<Rightarrow> 'w \<Rightarrow> bool \<times> 'w"
  TShader'parse_reduced :: "addr \<Rightarrow> addr \<Rightarrow> cint \<Rightarrow> bool \<Rightarrow> EShMessages \<Rightarrow> 'w \<Rightarrow> bool \<times> 'w"
  TShader'getInfoLog :: "addr \<Rightarrow> 'w \<Rightarrow> addr"
  TShader'getInfoDebugLog :: "addr \<Rightarrow> 'w \<Rightarrow> addr"
  TShader'getStage :: "addr \<Rightarrow> 'w \<Rightarrow> EShLanguage"
  TShader'getIntermediate :: "addr \<Rightarrow> 'w \<Rightarrow> addr"
  TProgram'ctor :: "addr \<Rightarrow> 'w \<Rightarrow> 'w"
  TProgram'dtor :: "addr \<Rightarrow> 'w \<Rightarrow> 'w"
  TProgram'addShader :: "addr \<Rightarrow> addr \<Rightarrow> 'w \<Rightarrow> 'w"
  TProgram'link :: "addr \<Rightarrow> EShMessages \<Rightarrow> 'w \<Rightarrow> bool \<times> 'w"
  TProgram'getInfoLog :: "addr \<Rightarrow> 'w \<Rightarrow> addr"
  TProgram'getInfoDebugLog :: "addr \<Rightarrow> 'w \<Rightarrow> addr"
  TProgram'getIntermediate :: "addr \<Rightarrow> EShLanguage \<Rightarrow> 'w \<Rightarrow> addr"
  TProgram'buildReflection :: "addr \<Rightarrow> cint \<Rightarrow> 'w \<Rightarrow> bool \<times> 'w"
  TProgram'getPipeIOIndex :: "addr \<Rightarrow> addr \<Rightarrow> bool \<Rightarrow> 'w \<Rightarrow> cint"
  TProgram'getNumLiveUniformVariables :: "addr \<Rightarrow> 'w \<Rightarrow> cint"
  TProgram'getNumLiveUniformBlocks :: "addr \<Rightarrow> 'w \<Rightarrow> cint"
  TProgram'getNumLiveAttributes :: "addr \<Rightarrow> 'w \<Rightarrow> cint"
  TProgram'getUniformIndex :: "addr \<Rightarrow> addr \<Rightarrow> 'w \<Rightarrow> cint"
  TProgram'getUniformName :: "addr \<Rightarrow> cint \<Rightarrow> 'w \<Rightarrow> addr"
  TProgram'getUniformBinding :: "addr \<Rightarrow> cint \<Rightarrow> 'w \<Rightarrow> cint"
  TProgram'getUniformStages :: "addr \<Rightarrow> cint \<Rightarrow> 'w \<Rightarrow> EShLanguageMask"
  TProgram'getUniformBlockIndex :: "addr \<Rightarrow> cint \<Rightarrow> 'w \<Rightarrow> cint"
  TProgram'getUniformType :: "addr \<Rightarrow> cint \<Rightarrow> 'w \<Rightarrow> cint"
  TProgram'getUniformBufferOffset :: "addr \<Rightarrow> cint \<Rightarrow> 'w \<Rightarrow> cint"
  TProgram'getUniformArraySize :: "addr \<Rightarrow> cint \<Rightarrow> 'w \<Rightarrow> cint"
  TProgram'getUniformBlockName :: "addr \<Rightarrow> cint \<Rightarrow> 'w \<Rightarrow> addr"
  TProgram'getUniformBlockSize :: "addr \<Rightarrow> cint \<Rightarrow> 'w \<Rightarrow> cint"
  TProgram'getUniformBlockBinding :: "addr \<Rightarrow> cint \<Rightarrow> 'w \<Rightarrow> cint"
  TProgram'getUniformBlockCounterIndex :: "addr \<Rightarrow> cint \<Rightarrow> 'w \<Rightarrow> cint"
  TProgram'getAttributeName :: "addr \<Rightarrow> cint \<Rightarrow> 'w \<Rightarrow> addr"
  TProgram'getAttributeType :: "addr \<Rightarrow> cint \<Rightarrow> 'w \<Rightarrow> cint"
  TProgram'dumpReflection :: "addr \<Rightarrow> 'w \<Rightarrow> 'w"

subsection \<open>The process\<close>

text \<open>
  What the boundary functions themselves act on: the objects created by the
  new-expressions of \<^verbatim>\<open>TShader_create\<close> and \<^verbatim>\<open>TProgram_create\<close> and not yet deleted
  (each known by the address of its storage, which is the handle), the caller's memory
  behind the two out-parameters of \<^verbatim>\<open>TShader_getStrings\<close> (one memory for cells that hold
  a pointer, one for cells that hold an \<^verbatim>\<open>int\<close>: the two parameter types cannot alias),
  and the state of the wrapped compiler.
\<close>

record 'w process =
  shaders :: "addr list"
  programs :: "addr list"
  ptr_mem :: "addr \<Rightarrow> addr"
  int_mem :: "addr \<Rightarrow> cint"
  compiler :: 'w

text \<open>
  A call returns a result and the next state, or leaves by a C++ exception, or has
  undefined behaviour. Undefined behaviour is recorded where a statement of
  \<^verbatim>\<open>glue.cpp\<close> itself dereferences or deletes a pointer; what a member function does
  with its \<^verbatim>\<open>this\<close> pointer belongs to the wrapped compiler.
\<close>

datatype cxx_exception = bad_alloc | other_exception string

datatype ('a, 's) outcome = Returns 'a 's | Throws cxx_exception | Undefined

text \<open>The three shapes of a forwarding call.\<close>

definition call_void :: "('w \<Rightarrow> 'w) \<Rightarrow> 'w process \<Rightarrow> (unit, 'w process) outcome" where
  "call_void f \<sigma> = Returns () (\<sigma>\<lparr>compiler := f (compiler \<sigma>)\<rparr>)"

definition call_get :: "('w \<Rightarrow> 'a) \<Rightarrow> 'w process \<Rightarrow> ('a, 'w process) outcome" where
  "call_get f \<sigma> = Returns (f (compiler \<sigma>)) \<sigma>"

definition call_ret :: "('w \<Rightarrow> 'a \<times> 'w) \<Rightarrow> 'w process \<Rightarrow> ('a, 'w process) outcome" where
  "call_ret f \<sigma> = (case f (compiler \<sigma>) of (r, w) \<Rightarrow> Returns r (\<sigma>\<lparr>compiler := w\<rparr>))"

text \<open>The casts \<^verbatim>\<open>(TShader *) self\<close> and \<^verbatim>\<open>(TProgram *) self\<close> keep the address.\<close>

definition TShader_ptr :: "addr \<Rightarrow> addr" where
  "TShader_ptr self = self"

definition TProgram_ptr :: "addr \<Rightarrow> addr" where
  "TProgram_ptr self = self"

text \<open>
  A new-expression either fails with \<^verbatim>\<open>std::bad_alloc\<close> or constructs the object in
  storage that is not null and is no live object's storage. A delete-expression on the
  null pointer does nothing; on a live object of the static type it runs the destructor
  and releases the storage; on anything else it is undefined.
\<close>

definition fresh_storage :: "'w process \<Rightarrow> addr \<Rightarrow> bool" where
  "fresh_storage \<sigma> p \<longleftrightarrow> p \<noteq> nullptr \<and> p \<notin> set (shaders \<sigma>) \<and> p \<notin> set (programs \<sigma>)"

subsection \<open>The functions of glue.cpp\<close>

definition get_version ::
  "'w glslang \<Rightarrow> 'w process \<Rightarrow> (Version, 'w process) outcome" where
  "get_version G = call_get (\<lambda>w. glslang'GetVersion G)"

definition get_essl_version_string ::
  "'w glslang \<Rightarrow> 'w process \<Rightarrow> (addr, 'w process) outcome" where
  "get_essl_version_string G = call_get (\<lambda>w. glslang'GetEsslVersionString G)"

definition get_khronos_tool_id ::
  "'w glslang \<Rightarrow> 'w process \<Rightarrow> (cint, 'w process) outcome" where
  "get_khronos_tool_id G = call_get (\<lambda>w. glslang'GetKhronosToolId G)"

definition initialize_process ::
  "'w glslang \<Rightarrow> 'w process \<Rightarrow> (bool, 'w process) outcome" where
  "initialize_process G = call_ret (glslang'InitializeProcess G)"

definition finalize_process ::
  "'w glslang \<Rightarrow> 'w process \<Rightarrow> (unit, 'w process) outcome" where
  "finalize_process G = call_void (glslang'FinalizeProcess G)"

inductive TShader_create ::
  "'w glslang \<Rightarrow> EShLanguage \<Rightarrow> 'w process \<Rightarrow> (addr, 'w process) outcome \<Rightarrow> bool"
  for G lang \<sigma> where
  TShader_create_bad_alloc: "TShader_create G lang \<sigma> (Throws bad_alloc)"
| TShader_create_new: "fresh_storage \<sigma> p \<Longrightarrow>
    TShader_create G lang \<sigma> (Returns p (\<sigma>\<lparr>shaders := p # shaders \<sigma>,
      compiler := TShader'ctor G p lang (compiler \<sigma>)\<rparr>))"

definition TShader_setStrings ::
  "'w glslang \<Rightarrow> addr \<Rightarrow> addr \<Rightarrow> cint \<Rightarrow> 'w process \<Rightarrow> (unit, 'w process) outcome" where
  "TShader_setStrings G self s n =
     (let shader = TShader_ptr self in
      call_void (TShader'setStrings G shader s n))"

definition TShader_setPreamble ::
  "'w glslang \<Rightarrow> addr \<Rightarrow> addr \<Rightarrow> 'w process \<Rightarrow> (unit, 'w process) outcome" where
  "TShader_setPreamble G self s =
     (let shader = TShader_ptr self in
      call_void (TShader'setPreamble G shader s))"

definition TShader_setStringsWithLengths ::
  "'w glslang \<Rightarrow> addr \<Rightarrow> addr \<Rightarrow> addr \<Rightarrow> cint \<Rightarrow> 'w process \<Rightarrow> (unit, 'w process) outcome" where
  "TShader_setStringsWithLengths G self s l n =
     (let shader = TShader_ptr self in
      call_void (TShader'setStringsWithLengths G shader s l n))"

definition TShader_setStringsWithLengthsAndNames ::
  "'w glslang \<Rightarrow> addr \<Rightarrow> addr \<Rightarrow> addr \<Rightarrow> addr \<Rightarrow> cint \<Rightarrow> 'w process \<Rightarrow> (unit, 'w process) outcome" where
  "TShader_setStringsWithLengthsAndNames G self s l names n =
     (let shader = TShader_ptr self in
      call_void (TShader'setStringsWithLengthsAndNames G shader s l names n))"

definition TShader_setEntryPoint ::
  "'w glslang \<Rightarrow> addr \<Rightarrow> addr \<Rightarrow> 'w process \<Rightarrow> (unit, 'w process) outcome" where
  "TShader_setEntryPoint G self entryPoint =
     (let shader = TShader_ptr self in
      call_void (TShader'setEntryPoint G shader entryPoint))"

definition TShader_setSourceEntryPoint ::
  "'w glslang \<Rightarrow> addr \<Rightarrow> addr \<Rightarrow> 'w process \<Rightarrow> (unit, 'w process) outcome" where
  "TShader_setSourceEntryPoint G self sourceEntryPointName =
     (let shader = TShader_ptr self in
      call_void (TShader'setSourceEntryPoint G shader sourceEntryPointName))"

definition TShader_setUniqueId ::
  "'w glslang \<Rightarrow> addr \<Rightarrow> culonglong \<Rightarrow> 'w process \<Rightarrow> (unit, 'w process) outcome" where
  "TShader_setUniqueId G self id' =
     (let shader = TShader_ptr self in
      call_void (TShader'setUniqueId G shader id'))"

definition TShader_setShiftBinding ::
  "'w glslang \<Rightarrow> addr \<Rightarrow> TResourceType \<Rightarrow> cuint \<Rightarrow> 'w process \<Rightarrow> (unit, 'w process) outcome" where
  "TShader_setShiftBinding G self res base =
     (let shader = TShader_ptr self in
      call_void (TShader'setShiftBinding G shader res base))"

definition TShader_setShiftBindingForSet ::
  "'w glslang \<Rightarrow> addr \<Rightarrow> TResourceType \<Rightarrow> cuint \<Rightarrow> cuint \<Rightarrow> 'w process \<Rightarrow> (unit, 'w process) outcome"
      where
  "TShader_setShiftBindingForSet G self res base set' =
     (let shader = TShader_ptr self in
      call_void (TShader'setShiftBindingForSet G shader res base set'))"

definition TShader_setAutoMapBindings ::
  "'w glslang \<Rightarrow> addr \<Rightarrow> bool \<Rightarrow> 'w process \<Rightarrow> (unit, 'w process) outcome" where
  "TShader_setAutoMapBindings G self map' =
     (let shader = TShader_ptr self in
      call_void (TShader'setAutoMapBindings G shader map'))"

definition TShader_setAutoMapLocations ::
  "'w glslang \<Rightarrow> addr \<Rightarrow> bool \<Rightarrow> 'w process \<Rightarrow> (unit, 'w process) outcome" where
  "TShader_setAutoMapLocations G self map' =
     (let shader = TShader_ptr self in
      call_void (TShader'setAutoMapLocations G shader map'))"

definition TShader_addUniformLocationOverride ::
  "'w glslang \<Rightarrow> addr \<Rightarrow> addr \<Rightarrow> cint \<Rightarrow> 'w process \<Rightarrow> (unit, 'w process) outcome" where
  "TShader_addUniformLocationOverride G self name loc =
     (let shader = TShader_ptr self in
      call_void (TShader'addUniformLocationOverride G shader name loc))"

definition TShader_setUniformLocationBase ::
  "'w glslang \<Rightarrow> addr \<Rightarrow> cint \<Rightarrow> 'w process \<Rightarrow> (unit, 'w process) outcome" where
  "TShader_setUniformLocationBase G self base =
     (let shader = TShader_ptr self in
      call_void (TShader'setUniformLocationBase G shader base))"

definition TShader_setInvertY ::
  "'w glslang \<Rightarrow> addr \<Rightarrow> bool \<Rightarrow> 'w process \<Rightarrow> (unit, 'w process) outcome" where
  "TShader_setInvertY G self invert =
     (let shader = TShader_ptr self in
      call_void (TShader'setInvertY G shader invert))"

definition TShader_setNoStorageFormat ::
  "'w glslang \<Rightarrow> addr \<Rightarrow> bool \<Rightarrow> 'w process \<Rightarrow> (unit, 'w process) outcome" where
  "TShader_setNoStorageFormat G self useUnknownFormat =
     (let shader = TShader_ptr self in
      call_void (TShader'setNoStorageFormat G shader useUnknownFormat))"

definition TShader_setNanMinMaxClamp ::
  "'w glslang \<Rightarrow> addr \<Rightarrow> bool \<Rightarrow> 'w process \<Rightarrow> (unit, 'w process) outcome" where
  "TShader_setNanMinMaxClamp G self nanMinMaxClamp =
     (let shader = TShader_ptr self in
      call_void (TShader'setNanMinMaxClamp G shader nanMinMaxClamp))"

definition TShader_setTextureSamplerTransformMode ::
  "'w glslang \<Rightarrow> addr \<Rightarrow> EShTextureSamplerTransformMode \<Rightarrow> 'w process \<Rightarrow> (unit, 'w process) outcome"
      where
  "TShader_setTextureSamplerTransformMode G self mode =
     (let shader = TShader_ptr self in
      call_void (TShader'setTextureSamplerTransformMode G shader mode))"

definition TShader_addBlockStorageOverride ::
  "'w glslang \<Rightarrow> addr \<Rightarrow> addr \<Rightarrow> TBlockStorageClass \<Rightarrow> 'w process \<Rightarrow> (unit, 'w process) outcome" where
  "TShader_addBlockStorageOverride G self nameStr backing =
     (let shader = TShader_ptr self in
      call_void (TShader'addBlockStorageOverride G shader nameStr backing))"

definition TShader_setGlobalUniformBlockName ::
  "'w glslang \<Rightarrow> addr \<Rightarrow> addr \<Rightarrow> 'w process \<Rightarrow> (unit, 'w process) outcome" where
  "TShader_setGlobalUniformBlockName G self name =
     (let shader = TShader_ptr self in
      call_void (TShader'setGlobalUniformBlockName G shader name))"

definition TShader_setAtomicCounterBlockName ::
  "'w glslang \<Rightarrow> addr \<Rightarrow> addr \<Rightarrow> 'w process \<Rightarrow> (unit, 'w process) outcome" where
  "TShader_setAtomicCounterBlockName G self name =
     (let shader = TShader_ptr self in
      call_void (TShader'setAtomicCounterBlockName G shader name))"

definition TShader_setGlobalUniformSet ::
  "'w glslang \<Rightarrow> addr \<Rightarrow> cuint \<Rightarrow> 'w process \<Rightarrow> (unit, 'w process) outcome" where
  "TShader_setGlobalUniformSet G self set' =
     (let shader = TShader_ptr self in
      call_void (TShader'setGlobalUniformSet G shader set'))"

definition TShader_setGlobalUniformBinding ::
  "'w glslang \<Rightarrow> addr \<Rightarrow> cuint \<Rightarrow> 'w process \<Rightarrow> (unit, 'w process) outcome" where
  "TShader_setGlobalUniformBinding G self binding =
     (let shader = TShader_ptr self in
      call_void (TShader'setGlobalUniformBinding G shader binding))"

definition TShader_setAtomicCounterBlockSet ::
  "'w glslang \<Rightarrow> addr \<Rightarrow> cuint \<Rightarrow> 'w process \<Rightarrow> (unit, 'w process) outcome" where
  "TShader_setAtomicCounterBlockSet G self set' =
     (let shader = TShader_ptr self in
      call_void (TShader'setAtomicCounterBlockSet G shader set'))"

definition TShader_setAtomicCounterBlockBinding ::
  "'w glslang \<Rightarrow> addr \<Rightarrow> cuint \<Rightarrow> 'w process \<Rightarrow> (unit, 'w process) outcome" where
  "TShader_setAtomicCounterBlockBinding G self binding =
     (let shader = TShader_ptr self in
      call_void (TShader'setAtomicCounterBlockBinding G shader binding))"

definition TShader_setEnvInput ::
  "'w glslang \<Rightarrow> addr \<Rightarrow> EShSource \<Rightarrow> EShLanguage \<Rightarrow> EShClient \<Rightarrow> cint \<Rightarrow> 'w process \<Rightarrow> (unit, 'w
      process) outcome" where
  "TShader_setEnvInput G self lang envStage client version =
     (let shader = TShader_ptr self in
      call_void (TShader'setEnvInput G shader lang envStage client version))"

definition TShader_setEnvClient ::
  "'w glslang \<Rightarrow> addr \<Rightarrow> EShClient \<Rightarrow> EShTargetClientVersion \<Rightarrow> 'w process \<Rightarrow> (unit, 'w process)
      outcome" where
  "TShader_setEnvClient G self client version =
     (let shader = TShader_ptr self in
      call_void (TShader'setEnvClient G shader client version))"

definition TShader_setEnvTarget ::
  "'w glslang \<Rightarrow> addr \<Rightarrow> EShTargetLanguage \<Rightarrow> EShTargetLanguageVersion \<Rightarrow> 'w process \<Rightarrow> (unit, 'w
      process) outcome" where
  "TShader_setEnvTarget G self lang version =
     (let shader = TShader_ptr self in
      call_void (TShader'setEnvTarget G shader lang version))"

definition TShader_getStrings ::
  "'w glslang \<Rightarrow> addr \<Rightarrow> addr \<Rightarrow> addr \<Rightarrow> 'w process \<Rightarrow> (unit, 'w process) outcome" where
  "TShader_getStrings G self s n \<sigma> =
     (let shader = TShader_ptr self in
      if s = nullptr \<or> n = nullptr then Undefined
      else (case TShader'getStrings G shader (compiler \<sigma>) of
        (strings, numStrings) \<Rightarrow>
          Returns () (\<sigma>\<lparr>ptr_mem := (ptr_mem \<sigma>)(s := strings),
            int_mem := (int_mem \<sigma>)(n := numStrings)\<rparr>)))"

definition TShader_getEnvTargetHlslFunctionality1 ::
  "'w glslang \<Rightarrow> addr \<Rightarrow> 'w process \<Rightarrow> (bool, 'w process) outcome" where
  "TShader_getEnvTargetHlslFunctionality1 G self =
     (let shader = TShader_ptr self in
      call_get (TShader'getEnvTargetHlslFunctionality1 G shader))"

definition TShader_setEnvInputVulkanRulesRelaxed ::
  "'w glslang \<Rightarrow> addr \<Rightarrow> 'w process \<Rightarrow> (unit, 'w process) outcome" where
  "TShader_setEnvInputVulkanRulesRelaxed G self =
     (let shader = TShader_ptr self in
      call_void (TShader'setEnvInputVulkanRulesRelaxed G shader))"

definition TShader_getEnvInputVulkanRulesRelaxed ::
  "'w glslang \<Rightarrow> addr \<Rightarrow> 'w process \<Rightarrow> (bool, 'w process) outcome" where
  "TShader_getEnvInputVulkanRulesRelaxed G self =
     (let shader = TShader_ptr self in
      call_get (TShader'getEnvInputVulkanRulesRelaxed G shader))"

definition TShader_parse ::
  "'w glslang \<Rightarrow> addr \<Rightarrow> addr \<Rightarrow> cint \<Rightarrow> EProfile \<Rightarrow> bool \<Rightarrow> bool \<Rightarrow> EShMessages \<Rightarrow> 'w process \<Rightarrow> (bool, 'w
      process) outcome" where
  "TShader_parse G self res defaultVersion defaultProfile forceDefaultVersionAndProfile
      forwardCompatible messages =
     (let shader = TShader_ptr self in
      call_ret (TShader'parse G shader res defaultVersion defaultProfile
          forceDefaultVersionAndProfile forwardCompatible messages))"

definition TShader_parse1 ::
  "'w glslang \<Rightarrow> addr \<Rightarrow> addr \<Rightarrow> cint \<Rightarrow> bool \<Rightarrow> EShMessages \<Rightarrow> 'w process \<Rightarrow> (bool, 'w process) outcome"
      where
  "TShader_parse1 G self res defaultVersion forwardCompatible messages =
     (let shader = TShader_ptr self in
      call_ret (TShader'parse_reduced G shader res defaultVersion forwardCompatible messages))"

definition TShader_getInfoLog ::
  "'w glslang \<Rightarrow> addr \<Rightarrow> 'w process \<Rightarrow> (addr, 'w process) outcome" where
  "TShader_getInfoLog G self =
     (let shader = TShader_ptr self in
      call_get (TShader'getInfoLog G shader))"

definition TShader_getInfoDebugLog ::
  "'w glslang \<Rightarrow> addr \<Rightarrow> 'w process \<Rightarrow> (addr, 'w process) outcome" where
  "TShader_getInfoDebugLog G self =
     (let shader = TShader_ptr self in
      call_get (TShader'getInfoDebugLog G shader))"

definition TShader_getStage ::
  "'w glslang \<Rightarrow> addr \<Rightarrow> 'w process \<Rightarrow> (EShLanguage, 'w process) outcome" where
  "TShader_getStage G self =
     (let shader = TShader_ptr self in
      call_get (TShader'getStage G shader))"

definition TShader_getIntermediate ::
  "'w glslang \<Rightarrow> addr \<Rightarrow> 'w process \<Rightarrow> (addr, 'w process) outcome" where
  "TShader_getIntermediate G self =
     (let shader = TShader_ptr self in
      call_get (TShader'getIntermediate G shader))"

definition TShader_destroy ::
  "'w glslang \<Rightarrow> addr \<Rightarrow> 'w process \<Rightarrow> (unit, 'w process) outcome" where
  "TShader_destroy G self \<sigma> =
     (let shader = TShader_ptr self in
      if shader = nullptr then Returns () \<sigma>
      else if shader \<in> set (shaders \<sigma>) then
        Returns () (\<sigma>\<lparr>shaders := removeAll shader (shaders \<sigma>),
          compiler := TShader'dtor G shader (compiler \<sigma>)\<rparr>)
      else Undefined)"

inductive TProgram_create ::
  "'w glslang \<Rightarrow> 'w process \<Rightarrow> (addr, 'w process) outcome \<Rightarrow> bool"
  for G \<sigma> where
  TProgram_create_bad_alloc: "TProgram_create G \<sigma> (Throws bad_alloc)"
| TProgram_create_new: "fresh_storage \<sigma> p \<Longrightarrow>
    TProgram_create G \<sigma> (Returns p (\<sigma>\<lparr>programs := p # programs \<sigma>,
      compiler := TProgram'ctor G p (compiler \<sigma>)\<rparr>))"

definition TProgram_addShader ::
  "'w glslang \<Rightarrow> addr \<Rightarrow> addr \<Rightarrow> 'w process \<Rightarrow> (unit, 'w process) outcome" where
  "TProgram_addShader G self shader =
     (let prog = TProgram_ptr self in
      call_void (TProgram'addShader G prog (TShader_ptr shader)))"

definition TProgram_link ::
  "'w glslang \<Rightarrow> addr \<Rightarrow> EShMessages \<Rightarrow> 'w process \<Rightarrow> (bool, 'w process) outcome" where
  "TProgram_link G self messages =
     (let prog = TProgram_ptr self in
      call_ret (TProgram'link G prog messages))"

definition TProgram_getInfoLog ::
  "'w glslang \<Rightarrow> addr \<Rightarrow> 'w process \<Rightarrow> (addr, 'w process) outcome" where
  "TProgram_getInfoLog G self =
     (let prog = TProgram_ptr self in
      call_get (TProgram'getInfoLog G prog))"

definition TProgram_getInfoDebugLog ::
  "'w glslang \<Rightarrow> addr \<Rightarrow> 'w process \<Rightarrow> (addr, 'w process) outcome" where
  "TProgram_getInfoDebugLog G self =
     (let prog = TProgram_ptr self in
      call_get (TProgram'getInfoDebugLog G prog))"

definition TProgram_getIntermediate ::
  "'w glslang \<Rightarrow> addr \<Rightarrow> EShLanguage \<Rightarrow> 'w process \<Rightarrow> (addr, 'w process) outcome" where
  "TProgram_getIntermediate G self stage =
     (let prog = TProgram_ptr self in
      call_get (TProgram'getIntermediate G prog stage))"

definition TProgram_buildReflection ::
  "'w glslang \<Rightarrow> addr \<Rightarrow> cint \<Rightarrow> 'w process \<Rightarrow> (bool, 'w process) outcome" where
  "TProgram_buildReflection G self opts =
     (let prog = TProgram_ptr self in
      call_ret (TProgram'buildReflection G prog opts))"

definition TProgram_getPipeIOIndex ::
  "'w glslang \<Rightarrow> addr \<Rightarrow> addr \<Rightarrow> bool \<Rightarrow> 'w process \<Rightarrow> (cint, 'w process) outcome" where
  "TProgram_getPipeIOIndex G self name inOrOut =
     (let prog = TProgram_ptr self in
      call_get (TProgram'getPipeIOIndex G prog name inOrOut))"

definition TProgram_getNumLiveUniformVariables ::
  "'w glslang \<Rightarrow> addr \<Rightarrow> 'w process \<Rightarrow> (cint, 'w process) outcome" where
  "TProgram_getNumLiveUniformVariables G self =
     (let prog = TProgram_ptr self in
      call_get (TProgram'getNumLiveUniformVariables G prog))"

definition TProgram_getNumLiveUniformBlocks ::
  "'w glslang \<Rightarrow> addr \<Rightarrow> 'w process \<Rightarrow> (cint, 'w process) outcome" where
  "TProgram_getNumLiveUniformBlocks G self =
     (let prog = TProgram_ptr self in
      call_get (TProgram'getNumLiveUniformBlocks G prog))"

definition TProgram_getNumLiveAttributes ::
  "'w glslang \<Rightarrow> addr \<Rightarrow> 'w process \<Rightarrow> (cint, 'w process) outcome" where
  "TProgram_getNumLiveAttributes G self =
     (let prog = TProgram_ptr self in
      call_get (TProgram'getNumLiveAttributes G prog))"

definition TProgram_getUniformIndex ::
  "'w glslang \<Rightarrow> addr \<Rightarrow> addr \<Rightarrow> 'w process \<Rightarrow> (cint, 'w process) outcome" where
  "TProgram_getUniformIndex G self name =
     (let prog = TProgram_ptr self in
      call_get (TProgram'getUniformIndex G prog name))"

definition TProgram_getUniformName ::
  "'w glslang \<Rightarrow> addr \<Rightarrow> cint \<Rightarrow> 'w process \<Rightarrow> (addr, 'w process) outcome" where
  "TProgram_getUniformName G self index =
     (let prog = TProgram_ptr self in
      call_get (TProgram'getUniformName G prog index))"

definition TProgram_getUniformBinding ::
  "'w glslang \<Rightarrow> addr \<Rightarrow> cint \<Rightarrow> 'w process \<Rightarrow> (cint, 'w process) outcome" where
  "TProgram_getUniformBinding G self index =
     (let prog = TProgram_ptr self in
      call_get (TProgram'getUniformBinding G prog index))"

definition TProgram_getUniformStages ::
  "'w glslang \<Rightarrow> addr \<Rightarrow> cint \<Rightarrow> 'w process \<Rightarrow> (EShLanguageMask, 'w process) outcome" where
  "TProgram_getUniformStages G self index =
     (let prog = TProgram_ptr self in
      call_get (TProgram'getUniformStages G prog index))"

definition TProgram_getUniformBlockIndex ::
  "'w glslang \<Rightarrow> addr \<Rightarrow> cint \<Rightarrow> 'w process \<Rightarrow> (cint, 'w process) outcome" where
  "TProgram_getUniformBlockIndex G self index =
     (let prog = TProgram_ptr self in
      call_get (TProgram'getUniformBlockIndex G prog index))"

definition TProgram_getUniformType ::
  "'w glslang \<Rightarrow> addr \<Rightarrow> cint \<Rightarrow> 'w process \<Rightarrow> (cint, 'w process) outcome" where
  "TProgram_getUniformType G self index =
     (let prog = TProgram_ptr self in
      call_get (TProgram'getUniformType G prog index))"

definition TProgram_getUniformBufferOffset ::
  "'w glslang \<Rightarrow> addr \<Rightarrow> cint \<Rightarrow> 'w process \<Rightarrow> (cint, 'w process) outcome" where
  "TProgram_getUniformBufferOffset G self index =
     (let prog = TProgram_ptr self in
      call_get (TProgram'getUniformBufferOffset G prog index))"

definition TProgram_getUniformArraySize ::
  "'w glslang \<Rightarrow> addr \<Rightarrow> cint \<Rightarrow> 'w process \<Rightarrow> (cint, 'w process) outcome" where
  "TProgram_getUniformArraySize G self index =
     (let prog = TProgram_ptr self in
      call_get (TProgram'getUniformArraySize G prog index))"

definition TProgram_getUniformBlockName ::
  "'w glslang \<Rightarrow> addr \<Rightarrow> cint \<Rightarrow> 'w process \<Rightarrow> (addr, 'w process) outcome" where
  "TProgram_getUniformBlockName G self index =
     (let prog = TProgram_ptr self in
      call_get (TProgram'getUniformBlockName G prog index))"

definition TProgram_getUniformBlockSize ::
  "'w glslang \<Rightarrow> addr \<Rightarrow> cint \<Rightarrow> 'w process \<Rightarrow> (cint, 'w process) outcome" where
  "TProgram_getUniformBlockSize G self index =
     (let prog = TProgram_ptr self in
      call_get (TProgram'getUniformBlockSize G prog index))"

definition TProgram_getUniformBlockBinding ::
  "'w glslang \<Rightarrow> addr \<Rightarrow> cint \<Rightarrow> 'w process \<Rightarrow> (cint, 'w process) outcome" where
  "TProgram_getUniformBlockBinding G self index =
     (let prog = TProgram_ptr self in
      call_get (TProgram'getUniformBlockBinding G prog index))"

definition TProgram_getUniformBlockCounterIndex ::
  "'w glslang \<Rightarrow> addr \<Rightarrow> cint \<Rightarrow> 'w process \<Rightarrow> (cint, 'w process) outcome" where
  "TProgram_getUniformBlockCounterIndex G self index =
     (let prog = TProgram_ptr self in
      call_get (TProgram'getUniformBlockCounterIndex G prog index))"

definition TProgram_getAttributeName ::
  "'w glslang \<Rightarrow> addr \<Rightarrow> cint \<Rightarrow> 'w process \<Rightarrow> (addr, 'w process) outcome" where
  "TProgram_getAttributeName G self index =
     (let prog = TProgram_ptr self in
      call_get (TProgram'getAttributeName G prog index))"

definition TProgram_getAttributeType ::
  "'w glslang \<Rightarrow> addr \<Rightarrow> cint \<Rightarrow> 'w process \<Rightarrow> (cint, 'w process) outcome" where
  "TProgram_getAttributeType G self index =
     (let prog = TProgram_ptr self in
      call_get (TProgram'getAttributeType G prog index))"

definition TProgram_dumpReflection ::
  "'w glslang \<Rightarrow> addr \<Rightarrow> 'w process \<Rightarrow> (unit, 'w process) outcome" where
  "TProgram_dumpReflection G self =
     (let prog = TProgram_ptr self in
      call_void (TProgram'dumpReflection G prog))"

definition TProgram_destroy ::
  "'w glslang \<Rightarrow> addr \<Rightarrow> 'w process \<Rightarrow> (unit, 'w process) outcome" where
  "TProgram_destroy G self \<sigma> =
     (let prog = TProgram_ptr self in
      if prog = nullptr then Returns () \<sigma>
      else if prog \<in> set (programs \<sigma>) then
        Returns () (\<sigma>\<lparr>programs := removeAll prog (programs \<sigma>),
          compiler := TProgram'dtor G prog (compiler \<sigma>)\<rparr>)
      else Undefined)"

subsection \<open>The boundary as a whole\<close>

text \<open>
  A call of the boundary is the name of an exported function with its arguments, in the
  order of the C parameter list. \<open>boundary G c \<sigma> out\<close> holds when the call \<open>c\<close>,
  made in state \<open>\<sigma>\<close>, can end with \<open>out\<close>; there is one rule for every function of
  \<^verbatim>\<open>glue.cpp\<close>.
\<close>

datatype arg = APtr addr | AInt cint | AUInt cuint | AULongLong culonglong | ABool bool

type_synonym call = "string \<times> arg list"

datatype retval = RVoid | RBool bool | RInt cint | RPtr addr | RVersion Version

fun returning :: "('a \<Rightarrow> retval) \<Rightarrow> ('a, 's) outcome \<Rightarrow> (retval, 's) outcome" where
  "returning f (Returns a s) = Returns (f a) s"
| "returning f (Throws e) = Throws e"
| "returning f Undefined = Undefined"

inductive boundary ::
  "'w glslang \<Rightarrow> call \<Rightarrow> 'w process \<Rightarrow> (retval, 'w process) outcome \<Rightarrow> bool"
  for G where
  get_version:
    "boundary G (''get_version'', []) \<sigma>
      (returning RVersion (get_version G \<sigma>))"
| get_essl_version_string:
    "boundary G (''get_essl_version_string'', []) \<sigma>
      (returning RPtr (get_essl_version_string G \<sigma>))"
| get_khronos_tool_id:
    "boundary G (''get_khronos_tool_id'', []) \<sigma>
      (returning RInt (get_khronos_tool_id G \<sigma>))"
| initialize_process:
    "boundary G (''initialize_process'', []) \<sigma>
      (returning RBool (initialize_process G \<sigma>))"
| finalize_process:
    "boundary G (''finalize_process'', []) \<sigma>
      (returning (\<lambda>_. RVoid) (finalize_process G \<sigma>))"
| TShader_create: "TShader_create G lang \<sigma> r \<Longrightarrow>
    boundary G (''TShader_create'', [AInt lang]) \<sigma> (returning RPtr r)"
| TShader_setStrings:
    "boundary G (''TShader_setStrings'', [APtr self, APtr s, AInt n]) \<sigma>
      (returning (\<lambda>_. RVoid) (TShader_setStrings G self s n \<sigma>))"
| TShader_setPreamble:
    "boundary G (''TShader_setPreamble'', [APtr self, APtr s]) \<sigma>
      (returning (\<lambda>_. RVoid) (TShader_setPreamble G self s \<sigma>))"
| TShader_setStringsWithLengths:
    "boundary G (''TShader_setStringsWithLengths'', [APtr self, APtr s, APtr l, AInt n]) \<sigma>
      (returning (\<lambda>_. RVoid) (TShader_setStringsWithLengths G self s l n \<sigma>))"
| TShader_setStringsWithLengthsAndNames:
    "boundary G (''TShader_setStringsWithLengthsAndNames'', [APtr self, APtr s, APtr l, APtr
        names, AInt n]) \<sigma>
      (returning (\<lambda>_. RVoid) (TShader_setStringsWithLengthsAndNames G self s l names n \<sigma>))"
| TShader_setEntryPoint:
    "boundary G (''TShader_setEntryPoint'', [APtr self, APtr entryPoint]) \<sigma>
      (returning (\<lambda>_. RVoid) (TShader_setEntryPoint G self entryPoint \<sigma>))"
| TShader_setSourceEntryPoint:
    "boundary G (''TShader_setSourceEntryPoint'', [APtr self, APtr sourceEntryPointName]) \<sigma>
      (returning (\<lambda>_. RVoid) (TShader_setSourceEntryPoint G self sourceEntryPointName \<sigma>))"
| TShader_setUniqueId:
    "boundary G (''TShader_setUniqueId'', [APtr self, AULongLong id']) \<sigma>
      (returning (\<lambda>_. RVoid) (TShader_setUniqueId G self id' \<sigma>))"
| TShader_setShiftBinding:
    "boundary G (''TShader_setShiftBinding'', [APtr self, AInt res, AUInt base]) \<sigma>
      (returning (\<lambda>_. RVoid) (TShader_setShiftBinding G self res base \<sigma>))"
| TShader_setShiftBindingForSet:
    "boundary G (''TShader_setShiftBindingForSet'', [APtr self, AInt res, AUInt base, AUInt set'])
        \<sigma>
      (returning (\<lambda>_. RVoid) (TShader_setShiftBindingForSet G self res base set' \<sigma>))"
| TShader_setAutoMapBindings:
    "boundary G (''TShader_setAutoMapBindings'', [APtr self, ABool map']) \<sigma>
      (returning (\<lambda>_. RVoid) (TShader_setAutoMapBindings G self map' \<sigma>))"
| TShader_setAutoMapLocations:
    "boundary G (''TShader_setAutoMapLocations'', [APtr self, ABool map']) \<sigma>
      (returning (\<lambda>_. RVoid) (TShader_setAutoMapLocations G self map' \<sigma>))"
| TShader_addUniformLocationOverride:
    "boundary G (''TShader_addUniformLocationOverride'', [APtr self, APtr name, AInt loc]) \<sigma>
      (returning (\<lambda>_. RVoid) (TShader_addUniformLocationOverride G self name loc \<sigma>))"
| TShader_setUniformLocationBase:
    "boundary G (''TShader_setUniformLocationBase'', [APtr self, AInt base]) \<sigma>
      (returning (\<lambda>_. RVoid) (TShader_setUniformLocationBase G self base \<sigma>))"
| TShader_setInvertY:
    "boundary G (''TShader_setInvertY'', [APtr self, ABool invert]) \<sigma>
      (returning (\<lambda>_. RVoid) (TShader_setInvertY G self invert \<sigma>))"
| TShader_setNoStorageFormat:
    "boundary G (''TShader_setNoStorageFormat'', [APtr self, ABool useUnknownFormat]) \<sigma>
      (returning (\<lambda>_. RVoid) (TShader_setNoStorageFormat G self useUnknownFormat \<sigma>))"
| TShader_setNanMinMaxClamp:
    "boundary G (''TShader_setNanMinMaxClamp'', [APtr self, ABool nanMinMaxClamp]) \<sigma>
      (returning (\<lambda>_. RVoid) (TShader_setNanMinMaxClamp G self nanMinMaxClamp \<sigma>))"
| TShader_setTextureSamplerTransformMode:
    "boundary G (''TShader_setTextureSamplerTransformMode'', [APtr self, AInt mode]) \<sigma>
      (returning (\<lambda>_. RVoid) (TShader_setTextureSamplerTransformMode G self mode \<sigma>))"
| TShader_addBlockStorageOverride:
    "boundary G (''TShader_addBlockStorageOverride'', [APtr self, APtr nameStr, AInt backing]) \<sigma>
      (returning (\<lambda>_. RVoid) (TShader_addBlockStorageOverride G self nameStr backing \<sigma>))"
| TShader_setGlobalUniformBlockName:
    "boundary G (''TShader_setGlobalUniformBlockName'', [APtr self, APtr name]) \<sigma>
      (returning (\<lambda>_. RVoid) (TShader_setGlobalUniformBlockName G self name \<sigma>))"
| TShader_setAtomicCounterBlockName:
    "boundary G (''TShader_setAtomicCounterBlockName'', [APtr self, APtr name]) \<sigma>
      (returning (\<lambda>_. RVoid) (TShader_setAtomicCounterBlockName G self name \<sigma>))"
| TShader_setGlobalUniformSet:
    "boundary G (''TShader_setGlobalUniformSet'', [APtr self, AUInt set']) \<sigma>
      (returning (\<lambda>_. RVoid) (TShader_setGlobalUniformSet G self set' \<sigma>))"
| TShader_setGlobalUniformBinding:
    "boundary G (''TShader_setGlobalUniformBinding'', [APtr self, AUInt binding]) \<sigma>
      (returning (\<lambda>_. RVoid) (TShader_setGlobalUniformBinding G self binding \<sigma>))"
| TShader_setAtomicCounterBlockSet:
    "boundary G (''TShader_setAtomicCounterBlockSet'', [APtr self, AUInt set']) \<sigma>
      (returning (\<lambda>_. RVoid) (TShader_setAtomicCounterBlockSet G self set' \<sigma>))"
| TShader_setAtomicCounterBlockBinding:
    "boundary G (''TShader_setAtomicCounterBlockBinding'', [APtr self, AUInt binding]) \<sigma>
      (returning (\<lambda>_. RVoid) (TShader_setAtomicCounterBlockBinding G self binding \<sigma>))"
| TShader_setEnvInput:
    "boundary G (''TShader_setEnvInput'', [APtr self, AInt lang, AInt envStage, AInt client, AInt
        version]) \<sigma>
      (returning (\<lambda>_. RVoid) (TShader_setEnvInput G self lang envStage client version \<sigma>))"
| TShader_setEnvClient:
    "boundary G (''TShader_setEnvClient'', [APtr self, AInt client, AInt version]) \<sigma>
      (returning (\<lambda>_. RVoid) (TShader_setEnvClient G self client version \<sigma>))"
| TShader_setEnvTarget:
    "boundary G (''TShader_setEnvTarget'', [APtr self, AInt lang, AInt version]) \<sigma>
      (returning (\<lambda>_. RVoid) (TShader_setEnvTarget G self lang version \<sigma>))"
| TShader_getStrings:
    "boundary G (''TShader_getStrings'', [APtr self, APtr s, APtr n]) \<sigma>
      (returning (\<lambda>_. RVoid) (TShader_getStrings G self s n \<sigma>))"
| TShader_getEnvTargetHlslFunctionality1:
    "boundary G (''TShader_getEnvTargetHlslFunctionality1'', [APtr self]) \<sigma>
      (returning RBool (TShader_getEnvTargetHlslFunctionality1 G self \<sigma>))"
| TShader_setEnvInputVulkanRulesRelaxed:
    "boundary G (''TShader_setEnvInputVulkanRulesRelaxed'', [APtr self]) \<sigma>
      (returning (\<lambda>_. RVoid) (TShader_setEnvInputVulkanRulesRelaxed G self \<sigma>))"
| TShader_getEnvInputVulkanRulesRelaxed:
    "boundary G (''TShader_getEnvInputVulkanRulesRelaxed'', [APtr self]) \<sigma>
      (returning RBool (TShader_getEnvInputVulkanRulesRelaxed G self \<sigma>))"
| TShader_parse:
    "boundary G (''TShader_parse'', [APtr self, APtr res, AInt defaultVersion, AInt
        defaultProfile, ABool forceDefaultVersionAndProfile, ABool forwardCompatible, AInt
        messages]) \<sigma>
      (returning RBool (TShader_parse G self res defaultVersion defaultProfile
          forceDefaultVersionAndProfile forwardCompatible messages \<sigma>))"
| TShader_parse1:
    "boundary G (''TShader_parse1'', [APtr self, APtr res, AInt defaultVersion, ABool
        forwardCompatible, AInt messages]) \<sigma>
      (returning RBool (TShader_parse1 G self res defaultVersion forwardCompatible messages \<sigma>))"
| TShader_getInfoLog:
    "boundary G (''TShader_getInfoLog'', [APtr self]) \<sigma>
      (returning RPtr (TShader_getInfoLog G self \<sigma>))"
| TShader_getInfoDebugLog:
    "boundary G (''TShader_getInfoDebugLog'', [APtr self]) \<sigma>
      (returning RPtr (TShader_getInfoDebugLog G self \<sigma>))"
| TShader_getStage:
    "boundary G (''TShader_getStage'', [APtr self]) \<sigma>
      (returning RInt (TShader_getStage G self \<sigma>))"
| TShader_getIntermediate:
    "boundary G (''TShader_getIntermediate'', [APtr self]) \<sigma>
      (returning RPtr (TShader_getIntermediate G self \<sigma>))"
| TShader_destroy:
    "boundary G (''TShader_destroy'', [APtr self]) \<sigma>
      (returning (\<lambda>_. RVoid) (TShader_destroy G self \<sigma>))"
| TProgram_create: "TProgram_create G \<sigma> r \<Longrightarrow>
    boundary G (''TProgram_create'', []) \<sigma> (returning RPtr r)"
| TProgram_addShader:
    "boundary G (''TProgram_addShader'', [APtr self, APtr shader]) \<sigma>
      (returning (\<lambda>_. RVoid) (TProgram_addShader G self shader \<sigma>))"
| TProgram_link:
    "boundary G (''TProgram_link'', [APtr self, AInt messages]) \<sigma>
      (returning RBool (TProgram_link G self messages \<sigma>))"
| TProgram_getInfoLog:
    "boundary G (''TProgram_getInfoLog'', [APtr self]) \<sigma>
      (returning RPtr (TProgram_getInfoLog G self \<sigma>))"
| TProgram_getInfoDebugLog:
    "boundary G (''TProgram_getInfoDebugLog'', [APtr self]) \<sigma>
      (returning RPtr (TProgram_getInfoDebugLog G self \<sigma>))"
| TProgram_getIntermediate:
    "boundary G (''TProgram_getIntermediate'', [APtr self, AInt stage]) \<sigma>
      (returning RPtr (TProgram_getIntermediate G self stage \<sigma>))"
| TProgram_buildReflection:
    "boundary G (''TProgram_buildReflection'', [APtr self, AInt opts]) \<sigma>
      (returning RBool (TProgram_buildReflection G self opts \<sigma>))"
| TProgram_getPipeIOIndex:
    "boundary G (''TProgram_getPipeIOIndex'', [APtr self, APtr name, ABool inOrOut]) \<sigma>
      (returning RInt (TProgram_getPipeIOIndex G self name inOrOut \<sigma>))"
| TProgram_getNumLiveUniformVariables:
    "boundary G (''TProgram_getNumLiveUniformVariables'', [APtr self]) \<sigma>
      (returning RInt (TProgram_getNumLiveUniformVariables G self \<sigma>))"
| TProgram_getNumLiveUniformBlocks:
    "boundary G (''TProgram_getNumLiveUniformBlocks'', [APtr self]) \<sigma>
      (returning RInt (TProgram_getNumLiveUniformBlocks G self \<sigma>))"
| TProgram_getNumLiveAttributes:
    "boundary G (''TProgram_getNumLiveAttributes'', [APtr self]) \<sigma>
      (returning RInt (TProgram_getNumLiveAttributes G self \<sigma>))"
| TProgram_getUniformIndex:
    "boundary G (''TProgram_getUniformIndex'', [APtr self, APtr name]) \<sigma>
      (returning RInt (TProgram_getUniformIndex G self name \<sigma>))"
| TProgram_getUniformName:
    "boundary G (''TProgram_getUniformName'', [APtr self, AInt index]) \<sigma>
      (returning RPtr (TProgram_getUniformName G self index \<sigma>))"
| TProgram_getUniformBinding:
    "boundary G (''TProgram_getUniformBinding'', [APtr self, AInt index]) \<sigma>
      (returning RInt (TProgram_getUniformBinding G self index \<sigma>))"
| TProgram_getUniformStages:
    "boundary G (''TProgram_getUniformStages'', [APtr self, AInt index]) \<sigma>
      (returning RInt (TProgram_getUniformStages G self index \<sigma>))"
| TProgram_getUniformBlockIndex:
    "boundary G (''TProgram_getUniformBlockIndex'', [APtr self, AInt index]) \<sigma>
      (returning RInt (TProgram_getUniformBlockIndex G self index \<sigma>))"
| TProgram_getUniformType:
    "boundary G (''TProgram_getUniformType'', [APtr self, AInt index]) \<sigma>
      (returning RInt (TProgram_getUniformType G self index \<sigma>))"
| TProgram_getUniformBufferOffset:
    "boundary G (''TProgram_getUniformBufferOffset'', [APtr self, AInt index]) \<sigma>
      (returning RInt (TProgram_getUniformBufferOffset G self index \<sigma>))"
| TProgram_getUniformArraySize:
    "boundary G (''TProgram_getUniformArraySize'', [APtr self, AInt index]) \<sigma>
      (returning RInt (TProgram_getUniformArraySize G self index \<sigma>))"
| TProgram_getUniformBlockName:
    "boundary G (''TProgram_getUniformBlockName'', [APtr self, AInt index]) \<sigma>
      (returning RPtr (TProgram_getUniformBlockName G self index \<sigma>))"
| TProgram_getUniformBlockSize:
    "boundary G (''TProgram_getUniformBlockSize'', [APtr self, AInt index]) \<sigma>
      (returning RInt (TProgram_getUniformBlockSize G self index \<sigma>))"
| TProgram_getUniformBlockBinding:
    "boundary G (''TProgram_getUniformBlockBinding'', [APtr self, AInt index]) \<sigma>
      (returning RInt (TProgram_getUniformBlockBinding G self index \<sigma>))"
| TProgram_getUniformBlockCounterIndex:
    "boundary G (''TProgram_getUniformBlockCounterIndex'', [APtr self, AInt index]) \<sigma>
      (returning RInt (TProgram_getUniformBlockCounterIndex G self index \<sigma>))"
| TProgram_getAttributeName:
    "boundary G (''TProgram_getAttributeName'', [APtr self, AInt index]) \<sigma>
      (returning RPtr (TProgram_getAttributeName G self index \<sigma>))"
| TProgram_getAttributeType:
    "boundary G (''TProgram_getAttributeType'', [APtr self, AInt index]) \<sigma>
      (returning RInt (TProgram_getAttributeType G self index \<sigma>))"
| TProgram_dumpReflection:
    "boundary G (''TProgram_dumpReflection'', [APtr self]) \<sigma>
      (returning (\<lambda>_. RVoid) (TProgram_dumpReflection G self \<sigma>))"
| TProgram_destroy:
    "boundary G (''TProgram_destroy'', [APtr self]) \<sigma>
      (returning (\<lambda>_. RVoid) (TProgram_destroy G self \<sigma>))"

subsection \<open>Vocabulary of the properties\<close>

text \<open>
  The handles that are alive: the objects created through the boundary and not yet
  destroyed. They are well formed when no two live objects share a handle and no live
  handle is null.
\<close>

definition live :: "'w process \<Rightarrow> addr set" where
  "live \<sigma> = set (shaders \<sigma>) \<union> set (programs \<sigma>)"

definition handles_ok :: "'w process \<Rightarrow> bool" where
  "handles_ok \<sigma> \<longleftrightarrow> distinct (shaders \<sigma> @ programs \<sigma>) \<and> nullptr \<notin> live \<sigma>"

definition create_operations :: "string list" where
  "create_operations = [''TShader_create'', ''TProgram_create'']"

subsection \<open>An object store for the wrapped compiler\<close>

text \<open>
  A state of the wrapped compiler that keeps the contents of its objects by address.
  The record is extensible: whatever else the compiler keeps is the extension.
\<close>

record 'o compiler_model =
  objects :: "addr \<rightharpoonup> 'o"

text \<open>
  Modelled from the spec: the destructor of the wrapped program class, which is not in
  \<^verbatim>\<open>glue.cpp\<close>. "Destroy() - releases the program object; does not affect attached
  CompilationUnits' ownership or lifetime": the destructor drops the object at its
  \<^verbatim>\<open>this\<close> pointer and leaves every other object as it is.
\<close>

definition release_object ::
  "addr \<Rightarrow> ('o, 'x) compiler_model_scheme \<Rightarrow> ('o, 'x) compiler_model_scheme" where
  "release_object this w = w\<lparr>objects := (objects w)(this := None)\<rparr>"

subsection \<open>A concrete compiler and process\<close>

text \<open>
  A small instance of the interface, on which the theorems below are run at concrete
  inputs. An object is a revision counter: a state-changing member function bumps the
  counter of its \<^verbatim>\<open>this\<close> object. The reduced \<^verbatim>\<open>parse\<close> is the full one without a
  default profile and without forcing the defaults.
\<close>

definition touch :: "addr \<Rightarrow> nat compiler_model \<Rightarrow> nat compiler_model" where
  "touch this w = w\<lparr>objects := (objects w)(this := map_option Suc (objects w this))\<rparr>"

definition sample_glslang :: "nat compiler_model glslang" where
  "sample_glslang = \<lparr>
    glslang'GetVersion = \<lparr>major = Int32 11, minor = Int32 5, patch = Int32 0, flavor = Addr 64\<rparr>,
    glslang'GetEsslVersionString = Addr 72,
    glslang'GetKhronosToolId = Int32 8,
    glslang'InitializeProcess = (\<lambda>w. (True, w)),
    glslang'FinalizeProcess = (\<lambda>w. w),
    TShader'ctor = (\<lambda>this a0 w. w\<lparr>objects := (objects w)(this \<mapsto> 0)\<rparr>),
    TShader'dtor = release_object,
    TShader'setStrings = (\<lambda>this a0 a1. touch this),
    TShader'setPreamble = (\<lambda>this a0. touch this),
    TShader'setStringsWithLengths = (\<lambda>this a0 a1 a2. touch this),
    TShader'setStringsWithLengthsAndNames = (\<lambda>this a0 a1 a2 a3. touch this),
    TShader'setEntryPoint = (\<lambda>this a0. touch this),
    TShader'setSourceEntryPoint = (\<lambda>this a0. touch this),
    TShader'setUniqueId = (\<lambda>this a0. touch this),
    TShader'setShiftBinding = (\<lambda>this a0 a1. touch this),
    TShader'setShiftBindingForSet = (\<lambda>this a0 a1 a2. touch this),
    TShader'setAutoMapBindings = (\<lambda>this a0. touch this),
    TShader'setAutoMapLocations = (\<lambda>this a0. touch this),
    TShader'addUniformLocationOverride = (\<lambda>this a0 a1. touch this),
    TShader'setUniformLocationBase = (\<lambda>this a0. touch this),
    TShader'setInvertY = (\<lambda>this a0. touch this),
    TShader'setNoStorageFormat = (\<lambda>this a0. touch this),
    TShader'setNanMinMaxClamp = (\<lambda>this a0. touch this),
    TShader'setTextureSamplerTransformMode = (\<lambda>this a0. touch this),
    TShader'addBlockStorageOverride = (\<lambda>this a0 a1. touch this),
    TShader'setGlobalUniformBlockName = (\<lambda>this a0. touch this),
    TShader'setAtomicCounterBlockName = (\<lambda>this a0. touch this),
    TShader'setGlobalUniformSet = (\<lambda>this a0. touch this),
    TShader'setGlobalUniformBinding = (\<lambda>this a0. touch this),
    TShader'setAtomicCounterBlockSet = (\<lambda>this a0. touch this),
    TShader'setAtomicCounterBlockBinding = (\<lambda>this a0. touch this),
    TShader'setEnvInput = (\<lambda>this a0 a1 a2 a3. touch this),
    TShader'setEnvClient = (\<lambda>this a0 a1. touch this),
    TShader'setEnvTarget = (\<lambda>this a0 a1. touch this),
    TShader'getStrings = (\<lambda>this w. (this, Int32 2)),
    TShader'getEnvTargetHlslFunctionality1 = (\<lambda>this w. objects w this \<noteq> None),
    TShader'setEnvInputVulkanRulesRelaxed = (\<lambda>this. touch this),
    TShader'getEnvInputVulkanRulesRelaxed = (\<lambda>this w. objects w this \<noteq> None),
    TShader'parse = (\<lambda>this a0 a1 a2 a3 a4 a5 w.
      (a1 \<noteq> Int32 0 \<and> (a3 \<longrightarrow> a2 \<noteq> Int32 0), touch this w)),
    TShader'parse_reduced = (\<lambda>this a0 a1 a2 a3 w. (a1 \<noteq> Int32 0, touch this w)),
    TShader'getInfoLog = (\<lambda>this w. this),
    TShader'getInfoDebugLog = (\<lambda>this w. this),
    TShader'getStage = (\<lambda>this w. Int32 0),
    TShader'getIntermediate = (\<lambda>this w. this),
    TProgram'ctor = (\<lambda>this w. w\<lparr>objects := (objects w)(this \<mapsto> 0)\<rparr>),
    TProgram'dtor = release_object,
    TProgram'addShader = (\<lambda>this a0. touch this),
    TProgram'link = (\<lambda>this a0 w. (objects w this \<noteq> None, touch this w)),
    TProgram'getInfoLog = (\<lambda>this w. this),
    TProgram'getInfoDebugLog = (\<lambda>this w. this),
    TProgram'getIntermediate = (\<lambda>this a0 w. this),
    TProgram'buildReflection = (\<lambda>this a0 w. (objects w this \<noteq> None, touch this w)),
    TProgram'getPipeIOIndex = (\<lambda>this a0 a1 w. Int32 0),
    TProgram'getNumLiveUniformVariables = (\<lambda>this w. Int32 0),
    TProgram'getNumLiveUniformBlocks = (\<lambda>this w. Int32 0),
    TProgram'getNumLiveAttributes = (\<lambda>this w. Int32 0),
    TProgram'getUniformIndex = (\<lambda>this a0 w. Int32 0),
    TProgram'getUniformName = (\<lambda>this a0 w. this),
    TProgram'getUniformBinding = (\<lambda>this a0 w. Int32 0),
    TProgram'getUniformStages = (\<lambda>this a0 w. Int32 0),
    TProgram'getUniformBlockIndex = (\<lambda>this a0 w. Int32 0),
    TProgram'getUniformType = (\<lambda>this a0 w. Int32 0),
    TProgram'getUniformBufferOffset = (\<lambda>this a0 w. Int32 0),
    TProgram'getUniformArraySize = (\<lambda>this a0 w. Int32 0),
    TProgram'getUniformBlockName = (\<lambda>this a0 w. this),
    TProgram'getUniformBlockSize = (\<lambda>this a0 w. Int32 0),
    TProgram'getUniformBlockBinding = (\<lambda>this a0 w. Int32 0),
    TProgram'getUniformBlockCounterIndex = (\<lambda>this a0 w. Int32 0),
    TProgram'getAttributeName = (\<lambda>this a0 w. this),
    TProgram'getAttributeType = (\<lambda>this a0 w. Int32 0),
    TProgram'dumpReflection = (\<lambda>this. touch this)\<rparr>"

definition sample_process :: "nat compiler_model process" where
  "sample_process =
     \<lparr>shaders = [Addr 16], programs = [Addr 32],
      ptr_mem = (\<lambda>a. nullptr), int_mem = (\<lambda>a. Int32 0),
      compiler = \<lparr>objects = [Addr 16 \<mapsto> 0, Addr 32 \<mapsto> 0]\<rparr>\<rparr>"


subsection \<open>Exceptions raised inside the compiler\<close>

text \<open>
  A call into the compiler can also leave by an exception. No function of
  \<^verbatim>\<open>glue.cpp\<close> has a \<^verbatim>\<open>try\<close> block or a \<^verbatim>\<open>noexcept\<close> specifier, so an exception
  raised inside the wrapped call of a function leaves that function in place of its
  return. What the compiler raises is a second parameter: for the name of a glue
  function, its arguments and the compiler's state, the exception raised inside the
  call it forwards to, or \<open>None\<close> when that call returns. A destructor is
  \<^verbatim>\<open>noexcept\<close>, so nothing is raised through a delete-expression.
\<close>

type_synonym 'w raising = "string \<Rightarrow> arg list \<Rightarrow> 'w \<Rightarrow> cxx_exception option"

definition destroy_operations :: "string list" where
  "destroy_operations = [''TShader_destroy'', ''TProgram_destroy'']"

fun unwinding :: "cxx_exception option \<Rightarrow> ('a, 's) outcome \<Rightarrow> ('a, 's) outcome" where
  "unwinding None out = out"
| "unwinding (Some e) (Returns a s) = Throws e"
| "unwinding (Some e) (Throws e') = Throws e'"
| "unwinding (Some e) Undefined = Undefined"

inductive crossing ::
  "'w glslang \<Rightarrow> 'w raising \<Rightarrow> call \<Rightarrow> 'w process \<Rightarrow> (retval, 'w process) outcome \<Rightarrow> bool"
  for G X where
  crossing:
    "boundary G (name, args) \<sigma> out \<Longrightarrow>
     crossing G X (name, args) \<sigma>
       (unwinding
          (if name \<in> set destroy_operations then None else X name args (compiler \<sigma>)) out)"

subsection \<open>A compiler that records its configuration\<close>

text \<open>
  The setters, \<^verbatim>\<open>parse\<close>, \<^verbatim>\<open>addShader\<close> and \<^verbatim>\<open>link\<close> of the wrapped classes are
  not in \<^verbatim>\<open>glue.cpp\<close>. The spec describes them by one rule: "configuration errors -
  detected lazily at parse/link time, never at the setter call". In the compiler below
  an object is the list of the settings made on it, each the name of a member function
  with the arguments it was given.
\<close>

type_synonym setting = "string \<times> arg list"

text \<open>The 28 configuration setters of \<^verbatim>\<open>glue.cpp\<close>, and the member function each
  forwards to (its name without the prefix \<^verbatim>\<open>TShader_\<close>).\<close>

definition configuration_setters :: "string list" where
  "configuration_setters =
     [''TShader_setStrings'', ''TShader_setPreamble'', ''TShader_setStringsWithLengths'',
      ''TShader_setStringsWithLengthsAndNames'', ''TShader_setEntryPoint'',
      ''TShader_setSourceEntryPoint'', ''TShader_setUniqueId'',
      ''TShader_setShiftBinding'', ''TShader_setShiftBindingForSet'',
      ''TShader_setAutoMapBindings'', ''TShader_setAutoMapLocations'',
      ''TShader_addUniformLocationOverride'', ''TShader_setUniformLocationBase'',
      ''TShader_setInvertY'', ''TShader_setNoStorageFormat'',
      ''TShader_setNanMinMaxClamp'', ''TShader_setTextureSamplerTransformMode'',
      ''TShader_addBlockStorageOverride'', ''TShader_setGlobalUniformBlockName'',
      ''TShader_setAtomicCounterBlockName'', ''TShader_setGlobalUniformSet'',
      ''TShader_setGlobalUniformBinding'', ''TShader_setAtomicCounterBlockSet'',
      ''TShader_setAtomicCounterBlockBinding'', ''TShader_setEnvInput'',
      ''TShader_setEnvClient'', ''TShader_setEnvTarget'',
      ''TShader_setEnvInputVulkanRulesRelaxed'']"

definition member_name :: "string \<Rightarrow> string" where
  "member_name name = drop 8 name"

text \<open>
  Modelled from the spec: a setter of the wrapped class. It appends its arguments to
  the settings of its object as they are, whatever they are, and checks nothing.
\<close>

definition recorded ::
  "string \<Rightarrow> arg list \<Rightarrow> addr \<Rightarrow> setting list compiler_model \<Rightarrow> setting list compiler_model" where
  "recorded m a this w =
     w\<lparr>objects := (objects w)(this := map_option (\<lambda>h. h @ [(m, a)]) (objects w this))\<rparr>"

text \<open>
  Modelled from the spec: the units attached to a program, those its
  \<^verbatim>\<open>addShader\<close> settings name ("adds a non-owning reference").
\<close>

fun attached :: "setting list \<Rightarrow> addr list" where
  "attached [] = []"
| "attached ((m, a) # h) =
     (if m = ''addShader'' then (case a of [APtr unit] \<Rightarrow> unit # attached h | _ \<Rightarrow> attached h)
      else attached h)"

text \<open>
  Modelled from the spec: the wrapped compiler with its setters, \<^verbatim>\<open>parse\<close>,
  \<^verbatim>\<open>addShader\<close> and \<^verbatim>\<open>link\<close> as the rule describes them. Every setter records;
  \<^verbatim>\<open>parse\<close> returns the compiler's judgement of what has been recorded in the unit,
  and \<^verbatim>\<open>link\<close> its judgement of what has been recorded in the attached units. The
  two judgements, \<open>accepts\<close> and \<open>links\<close>, are parameters; every other function is
  that of the compiler \<open>G\<close>.
\<close>

definition recording_compiler ::
  "(setting list \<Rightarrow> arg list \<Rightarrow> bool) \<Rightarrow> (setting list option list \<Rightarrow> arg list \<Rightarrow> bool) \<Rightarrow>
   setting list compiler_model glslang \<Rightarrow> setting list compiler_model glslang" where
  "recording_compiler accepts links G =
     G\<lparr>TShader'setStrings := (\<lambda>this s n. recorded ''setStrings'' [APtr s, AInt n] this),
       TShader'setPreamble := (\<lambda>this s. recorded ''setPreamble'' [APtr s] this),
       TShader'setStringsWithLengths := (\<lambda>this s l n. recorded ''setStringsWithLengths'' [APtr s,
           APtr l, AInt n] this),
       TShader'setStringsWithLengthsAndNames := (\<lambda>this s l names n. recorded
           ''setStringsWithLengthsAndNames'' [APtr s, APtr l, APtr names, AInt n] this),
       TShader'setEntryPoint := (\<lambda>this entryPoint. recorded ''setEntryPoint'' [APtr entryPoint]
           this),
       TShader'setSourceEntryPoint := (\<lambda>this sourceEntryPointName. recorded
           ''setSourceEntryPoint'' [APtr sourceEntryPointName] this),
       TShader'setUniqueId := (\<lambda>this id'. recorded ''setUniqueId'' [AULongLong id'] this),
       TShader'setShiftBinding := (\<lambda>this res base. recorded ''setShiftBinding'' [AInt res, AUInt
           base] this),
       TShader'setShiftBindingForSet := (\<lambda>this res base set'. recorded ''setShiftBindingForSet''
           [AInt res, AUInt base, AUInt set'] this),
       TShader'setAutoMapBindings := (\<lambda>this map'. recorded ''setAutoMapBindings'' [ABool map']
           this),
       TShader'setAutoMapLocations := (\<lambda>this map'. recorded ''setAutoMapLocations'' [ABool map']
           this),
       TShader'addUniformLocationOverride := (\<lambda>this name loc. recorded
           ''addUniformLocationOverride'' [APtr name, AInt loc] this),
       TShader'setUniformLocationBase := (\<lambda>this base. recorded ''setUniformLocationBase'' [AInt
           base] this),
       TShader'setInvertY := (\<lambda>this invert. recorded ''setInvertY'' [ABool invert] this),
       TShader'setNoStorageFormat := (\<lambda>this useUnknownFormat. recorded ''setNoStorageFormat''
           [ABool useUnknownFormat] this),
       TShader'setNanMinMaxClamp := (\<lambda>this nanMinMaxClamp. recorded ''setNanMinMaxClamp'' [ABool
           nanMinMaxClamp] this),
       TShader'setTextureSamplerTransformMode := (\<lambda>this mode. recorded
           ''setTextureSamplerTransformMode'' [AInt mode] this),
       TShader'addBlockStorageOverride := (\<lambda>this nameStr backing. recorded
           ''addBlockStorageOverride'' [APtr nameStr, AInt backing] this),
       TShader'setGlobalUniformBlockName := (\<lambda>this name. recorded ''setGlobalUniformBlockName''
           [APtr name] this),
       TShader'setAtomicCounterBlockName := (\<lambda>this name. recorded ''setAtomicCounterBlockName''
           [APtr name] this),
       TShader'setGlobalUniformSet := (\<lambda>this set'. recorded ''setGlobalUniformSet'' [AUInt set']
           this),
       TShader'setGlobalUniformBinding := (\<lambda>this binding. recorded ''setGlobalUniformBinding''
           [AUInt binding] this),
       TShader'setAtomicCounterBlockSet := (\<lambda>this set'. recorded ''setAtomicCounterBlockSet''
           [AUInt set'] this),
       TShader'setAtomicCounterBlockBinding := (\<lambda>this binding. recorded
           ''setAtomicCounterBlockBinding'' [AUInt binding] this),
       TShader'setEnvInput := (\<lambda>this lang envStage client version. recorded ''setEnvInput'' [AInt
           lang, AInt envStage, AInt client, AInt version] this),
       TShader'setEnvClient := (\<lambda>this client version. recorded ''setEnvClient'' [AInt client, AInt
           version] this),
       TShader'setEnvTarget := (\<lambda>this lang version. recorded ''setEnvTarget'' [AInt lang, AInt
           version] this),
       TShader'setEnvInputVulkanRulesRelaxed := (\<lambda>this. recorded ''setEnvInputVulkanRulesRelaxed''
           [] this),
       TShader'parse :=
         (\<lambda>this res defaultVersion defaultProfile force forwardCompatible messages w.
            (case objects w this of
               None \<Rightarrow> False
             | Some h \<Rightarrow>
                 accepts h [APtr res, AInt defaultVersion, AInt defaultProfile, ABool force,
                   ABool forwardCompatible, AInt messages],
             recorded ''parse'' [APtr res, AInt defaultVersion, AInt defaultProfile, ABool force,
               ABool forwardCompatible, AInt messages] this w)),
       TShader'parse_reduced :=
         (\<lambda>this res defaultVersion forwardCompatible messages w.
            (case objects w this of
               None \<Rightarrow> False
             | Some h \<Rightarrow>
                 accepts h [APtr res, AInt defaultVersion, ABool forwardCompatible, AInt
                     messages],
             recorded ''parse'' [APtr res, AInt defaultVersion, ABool forwardCompatible,
               AInt messages] this w)),
       TProgram'addShader := (\<lambda>this shader. recorded ''addShader'' [APtr shader] this),
       TProgram'link :=
         (\<lambda>this messages w.
            (case objects w this of
               None \<Rightarrow> False
             | Some h \<Rightarrow> links (map (objects w) (attached h)) [AInt messages],
             recorded ''link'' [AInt messages] this w))\<rparr>"

text \<open>
  Modelled from the spec: "never at the setter call". Nothing is raised inside a setter
  of the wrapped class; what is raised inside any other call stays a parameter.
\<close>

definition quiet_setters :: "'w raising \<Rightarrow> 'w raising" where
  "quiet_setters X name args w =
     (if name \<in> set configuration_setters then None else X name args w)"

text \<open>A process with one unit and one program that has the unit attached, and a
  compiler for it whose state-changing functions change nothing.\<close>

definition sample_unit_process :: "setting list compiler_model process" where
  "sample_unit_process =
     \<lparr>shaders = [Addr 16], programs = [Addr 32],
      ptr_mem = (\<lambda>a. nullptr), int_mem = (\<lambda>a. Int32 0),
      compiler = \<lparr>objects = [Addr 16 \<mapsto> [], Addr 32 \<mapsto> [(''addShader'', [APtr (Addr 16)])]]\<rparr>\<rparr>"

definition sample_recorder :: "setting list compiler_model glslang" where
  "sample_recorder =
     \<lparr>glslang'GetVersion = \<lparr>major = Int32 11, minor = Int32 5, patch = Int32 0, flavor = Addr 64\<rparr>,
      glslang'GetEsslVersionString = Addr 72,
      glslang'GetKhronosToolId = Int32 8,
      glslang'InitializeProcess = (\<lambda>w. (True, w)),
      glslang'FinalizeProcess = (\<lambda>w. w),
      TShader'ctor = (\<lambda>this a0 w. w\<lparr>objects := (objects w)(this \<mapsto> [])\<rparr>),
      TShader'dtor = release_object,
      TShader'setStrings = (\<lambda>this a0 a1 w. w),
      TShader'setPreamble = (\<lambda>this a0 w. w),
      TShader'setStringsWithLengths = (\<lambda>this a0 a1 a2 w. w),
      TShader'setStringsWithLengthsAndNames = (\<lambda>this a0 a1 a2 a3 w. w),
      TShader'setEntryPoint = (\<lambda>this a0 w. w),
      TShader'setSourceEntryPoint = (\<lambda>this a0 w. w),
      TShader'setUniqueId = (\<lambda>this a0 w. w),
      TShader'setShiftBinding = (\<lambda>this a0 a1 w. w),
      TShader'setShiftBindingForSet = (\<lambda>this a0 a1 a2 w. w),
      TShader'setAutoMapBindings = (\<lambda>this a0 w. w),
      TShader'setAutoMapLocations = (\<lambda>this a0 w. w),
      TShader'addUniformLocationOverride = (\<lambda>this a0 a1 w. w),
      TShader'setUniformLocationBase = (\<lambda>this a0 w. w),
      TShader'setInvertY = (\<lambda>this a0 w. w),
      TShader'setNoStorageFormat = (\<lambda>this a0 w. w),
      TShader'setNanMinMaxClamp = (\<lambda>this a0 w. w),
      TShader'setTextureSamplerTransformMode = (\<lambda>this a0 w. w),
      TShader'addBlockStorageOverride = (\<lambda>this a0 a1 w. w),
      TShader'setGlobalUniformBlockName = (\<lambda>this a0 w. w),
      TShader'setAtomicCounterBlockName = (\<lambda>this a0 w. w),
      TShader'setGlobalUniformSet = (\<lambda>this a0 w. w),
      TShader'setGlobalUniformBinding = (\<lambda>this a0 w. w),
      TShader'setAtomicCounterBlockSet = (\<lambda>this a0 w. w),
      TShader'setAtomicCounterBlockBinding = (\<lambda>this a0 w. w),
      TShader'setEnvInput = (\<lambda>this a0 a1 a2 a3 w. w),
      TShader'setEnvClient = (\<lambda>this a0 a1 w. w),
      TShader'setEnvTarget = (\<lambda>this a0 a1 w. w),
      TShader'getStrings = (\<lambda>this w. (this, Int32 0)),
      TShader'getEnvTargetHlslFunctionality1 = (\<lambda>this w. True),
      TShader'setEnvInputVulkanRulesRelaxed = (\<lambda>this w. w),
      TShader'getEnvInputVulkanRulesRelaxed = (\<lambda>this w. True),
      TShader'parse = (\<lambda>this a0 a1 a2 a3 a4 a5 w. (True, w)),
      reduced = (\<lambda>this a0 a1 a2 a3 w. (True, w)),
      TShader'getInfoLog = (\<lambda>this w. this),
      TShader'getInfoDebugLog = (\<lambda>this w. this),
      TShader'getStage = (\<lambda>this w. Int32 0),
      TShader'getIntermediate = (\<lambda>this w. this),
      TProgram'ctor = (\<lambda>this w. w\<lparr>objects := (objects w)(this \<mapsto> [])\<rparr>),
      TProgram'dtor = release_object,
      TProgram'addShader = (\<lambda>this a0 w. w),
      TProgram'link = (\<lambda>this a0 w. (True, w)),
      TProgram'getInfoLog = (\<lambda>this w. this),
      TProgram'getInfoDebugLog = (\<lambda>this w. this),
      TProgram'getIntermediate = (\<lambda>this a0 w. this),
      TProgram'buildReflection = (\<lambda>this a0 w. (True, w)),
      TProgram'getPipeIOIndex = (\<lambda>this a0 a1 w. Int32 0),
      TProgram'getNumLiveUniformVariables = (\<lambda>this w. Int32 0),
      TProgram'getNumLiveUniformBlocks = (\<lambda>this w. Int32 0),
      TProgram'getNumLiveAttributes = (\<lambda>this w. Int32 0),
      TProgram'getUniformIndex = (\<lambda>this a0 w. Int32 0),
      TProgram'getUniformName = (\<lambda>this a0 w. this),
      TProgram'getUniformBinding = (\<lambda>this a0 w. Int32 0),
      TProgram'getUniformStages = (\<lambda>this a0 w. Int32 0),
      TProgram'getUniformBlockIndex = (\<lambda>this a0 w. Int32 0),
      TProgram'getUniformType = (\<lambda>this a0 w. Int32 0),
      TProgram'getUniformBufferOffset = (\<lambda>this a0 w. Int32 0),
      TProgram'getUniformArraySize = (\<lambda>this a0 w. Int32 0),
      TProgram'getUniformBlockName = (\<lambda>this a0 w. this),
      TProgram'getUniformBlockSize = (\<lambda>this a0 w. Int32 0),
      TProgram'getUniformBlockBinding = (\<lambda>this a0 w. Int32 0),
      TProgram'getUniformBlockCounterIndex = (\<lambda>this a0 w. Int32 0),
      TProgram'getAttributeName = (\<lambda>this a0 w. this),
      TProgram'getAttributeType = (\<lambda>this a0 w. Int32 0),
      TProgram'dumpReflection = (\<lambda>this w. w)\<rparr>"

text \<open>
  A judgement for the concrete runs: a unit whose client has been set to the unknown
  client 99 is not accepted, and a program links when each attached unit is an object.
\<close>

definition sample_accepts :: "setting list \<Rightarrow> arg list \<Rightarrow> bool" where
  "sample_accepts h a \<longleftrightarrow> (''setEnvClient'', [AInt (Int32 99), AInt (Int32 0)]) \<notin> set h"

definition sample_links :: "setting list option list \<Rightarrow> arg list \<Rightarrow> bool" where
  "sample_links hs a \<longleftrightarrow> None \<notin> set hs"

definition sample_raising :: "nat compiler_model raising" where
  "sample_raising name args w =
     (if name = ''TShader_parse'' then Some (other_exception ''std::length_error'') else None)"

section \<open>Properties\<close>

subsection \<open>Unfolding the glue\<close>

lemmas forwarding_shapes =
  call_void_def call_get_def call_ret_def TShader_ptr_def TProgram_ptr_def Let_def split_beta

lemmas glue_defs =
  get_version_def get_essl_version_string_def get_khronos_tool_id_def initialize_process_def
  finalize_process_def TShader_setStrings_def TShader_setPreamble_def
  TShader_setStringsWithLengths_def TShader_setStringsWithLengthsAndNames_def
  TShader_setEntryPoint_def TShader_setSourceEntryPoint_def TShader_setUniqueId_def
  TShader_setShiftBinding_def TShader_setShiftBindingForSet_def
  TShader_setAutoMapBindings_def TShader_setAutoMapLocations_def
  TShader_addUniformLocationOverride_def TShader_setUniformLocationBase_def
  TShader_setInvertY_def TShader_setNoStorageFormat_def TShader_setNanMinMaxClamp_def
  TShader_setTextureSamplerTransformMode_def TShader_addBlockStorageOverride_def
  TShader_setGlobalUniformBlockName_def TShader_setAtomicCounterBlockName_def
  TShader_setGlobalUniformSet_def TShader_setGlobalUniformBinding_def
  TShader_setAtomicCounterBlockSet_def TShader_setAtomicCounterBlockBinding_def
  TShader_setEnvInput_def TShader_setEnvClient_def TShader_setEnvTarget_def
  TShader_getStrings_def TShader_getEnvTargetHlslFunctionality1_def
  TShader_setEnvInputVulkanRulesRelaxed_def TShader_getEnvInputVulkanRulesRelaxed_def
  TShader_parse_def TShader_parse1_def TShader_getInfoLog_def TShader_getInfoDebugLog_def
  TShader_getStage_def TShader_getIntermediate_def TShader_destroy_def
  TProgram_addShader_def TProgram_link_def TProgram_getInfoLog_def
  TProgram_getInfoDebugLog_def TProgram_getIntermediate_def TProgram_buildReflection_def
  TProgram_getPipeIOIndex_def TProgram_getNumLiveUniformVariables_def
  TProgram_getNumLiveUniformBlocks_def TProgram_getNumLiveAttributes_def
  TProgram_getUniformIndex_def TProgram_getUniformName_def TProgram_getUniformBinding_def
  TProgram_getUniformStages_def TProgram_getUniformBlockIndex_def
  TProgram_getUniformType_def TProgram_getUniformBufferOffset_def
  TProgram_getUniformArraySize_def TProgram_getUniformBlockName_def
  TProgram_getUniformBlockSize_def TProgram_getUniformBlockBinding_def
  TProgram_getUniformBlockCounterIndex_def TProgram_getAttributeName_def
  TProgram_getAttributeType_def TProgram_dumpReflection_def TProgram_destroy_def

lemma returning_Returns_iff:
  "returning f r = Returns v s \<longleftrightarrow> (\<exists>a. r = Returns a s \<and> v = f a)"
  by (cases r) auto

lemma returning_Throws_iff:
  "returning f r = Throws e \<longleftrightarrow> r = Throws e"
  by (cases r) auto

lemma sample_glslang_simps:
  "TShader'parse sample_glslang =
     (\<lambda>this a0 a1 a2 a3 a4 a5 w.
        (a1 \<noteq> Int32 0 \<and> (a3 \<longrightarrow> a2 \<noteq> Int32 0), touch this w))"
  "TShader'parse_reduced sample_glslang =
     (\<lambda>this a0 a1 a2 a3 w. (a1 \<noteq> Int32 0, touch this w))"
  "TShader'getStrings sample_glslang = (\<lambda>this w. (this, Int32 2))"
  "TProgram'getUniformName sample_glslang = (\<lambda>this a0 w. this)"
  "TProgram'link sample_glslang = (\<lambda>this a0 w. (objects w this \<noteq> None, touch this w))"
  "TShader'ctor sample_glslang = (\<lambda>this a0 w. w\<lparr>objects := (objects w)(this \<mapsto> 0)\<rparr>)"
  "TProgram'ctor sample_glslang = (\<lambda>this w. w\<lparr>objects := (objects w)(this \<mapsto> 0)\<rparr>)"
  "TShader'dtor sample_glslang = release_object"
  "TProgram'dtor sample_glslang = release_object"
  "glslang'GetVersion sample_glslang =
     \<lparr>major = Int32 11, minor = Int32 5, patch = Int32 0, flavor = Addr 64\<rparr>"
  by (simp_all add: sample_glslang_def)

lemma handles_ok_no_objects:
  "shaders \<sigma> = [] \<Longrightarrow> programs \<sigma> = [] \<Longrightarrow> handles_ok \<sigma>"
  by (simp add: handles_ok_def live_def)

subsection \<open>Forwarding\<close>

text \<open>
  C1. Every function of the boundary forwards to the wrapped compiler: the result is
  the result of the corresponding function, constructor, destructor or member function,
  called on the object the handle names with the arguments as they were passed, and the
  state of the compiler afterwards is the state that call leaves. The glue adds nothing
  of its own: the live objects change only in the two create and the two destroy
  functions (by the new-expression and the delete-expression), the caller's memory only
  in \<^verbatim>\<open>TShader_getStrings\<close> (the two locations its reference parameters name), and
  the only outcomes that are not a normal return are those the C++ language itself
  gives: \<^verbatim>\<open>std::bad_alloc\<close> from a new-expression, and undefined behaviour for a null
  out-parameter of \<^verbatim>\<open>TShader_getStrings\<close> or a deleted pointer that is neither null nor
  a live object.
\<close>

theorem glue_forwards:
  "(\<forall>\<sigma>. get_version G \<sigma> = Returns (glslang'GetVersion G) \<sigma>)
  \<and> (\<forall>\<sigma>. get_essl_version_string G \<sigma> = Returns (glslang'GetEsslVersionString G) \<sigma>)
  \<and> (\<forall>\<sigma>. get_khronos_tool_id G \<sigma> = Returns (glslang'GetKhronosToolId G) \<sigma>)
  \<and> (\<forall>\<sigma>. initialize_process G \<sigma> =
      Returns (fst (glslang'InitializeProcess G (compiler \<sigma>))) (\<sigma>\<lparr>compiler := snd
          (glslang'InitializeProcess G (compiler \<sigma>))\<rparr>))
  \<and> (\<forall>\<sigma>. finalize_process G \<sigma> = Returns () (\<sigma>\<lparr>compiler := glslang'FinalizeProcess G (compiler
      \<sigma>)\<rparr>))
  \<and> (\<forall>lang \<sigma> r. TShader_create G lang \<sigma> r \<longleftrightarrow>
      r = Throws bad_alloc \<or>
      (\<exists>p. r = Returns p (\<sigma>\<lparr>shaders := p # shaders \<sigma>,
          compiler := TShader'ctor G p lang (compiler \<sigma>)\<rparr>) \<and>
        fresh_storage \<sigma> p))
  \<and> (\<forall>self s n \<sigma>. TShader_setStrings G self s n \<sigma> =
      Returns () (\<sigma>\<lparr>compiler := TShader'setStrings G self s n (compiler \<sigma>)\<rparr>))
  \<and> (\<forall>self s \<sigma>. TShader_setPreamble G self s \<sigma> =
      Returns () (\<sigma>\<lparr>compiler := TShader'setPreamble G self s (compiler \<sigma>)\<rparr>))
  \<and> (\<forall>self s l n \<sigma>. TShader_setStringsWithLengths G self s l n \<sigma> =
      Returns () (\<sigma>\<lparr>compiler := TShader'setStringsWithLengths G self s l n (compiler \<sigma>)\<rparr>))
  \<and> (\<forall>self s l names n \<sigma>. TShader_setStringsWithLengthsAndNames G self s l names n \<sigma> =
      Returns () (\<sigma>\<lparr>compiler := TShader'setStringsWithLengthsAndNames G self s l names n (compiler
          \<sigma>)\<rparr>))
  \<and> (\<forall>self entryPoint \<sigma>. TShader_setEntryPoint G self entryPoint \<sigma> =
      Returns () (\<sigma>\<lparr>compiler := TShader'setEntryPoint G self entryPoint (compiler \<sigma>)\<rparr>))
  \<and> (\<forall>self sourceEntryPointName \<sigma>. TShader_setSourceEntryPoint G self sourceEntryPointName \<sigma> =
      Returns () (\<sigma>\<lparr>compiler := TShader'setSourceEntryPoint G self sourceEntryPointName (compiler
          \<sigma>)\<rparr>))
  \<and> (\<forall>self id' \<sigma>. TShader_setUniqueId G self id' \<sigma> =
      Returns () (\<sigma>\<lparr>compiler := TShader'setUniqueId G self id' (compiler \<sigma>)\<rparr>))
  \<and> (\<forall>self res base \<sigma>. TShader_setShiftBinding G self res base \<sigma> =
      Returns () (\<sigma>\<lparr>compiler := TShader'setShiftBinding G self res base (compiler \<sigma>)\<rparr>))
  \<and> (\<forall>self res base set' \<sigma>. TShader_setShiftBindingForSet G self res base set' \<sigma> =
      Returns () (\<sigma>\<lparr>compiler := TShader'setShiftBindingForSet G self res base set' (compiler \<sigma>)\<rparr>))
  \<and> (\<forall>self map' \<sigma>. TShader_setAutoMapBindings G self map' \<sigma> =
      Returns () (\<sigma>\<lparr>compiler := TShader'setAutoMapBindings G self map' (compiler \<sigma>)\<rparr>))
  \<and> (\<forall>self map' \<sigma>. TShader_setAutoMapLocations G self map' \<sigma> =
      Returns () (\<sigma>\<lparr>compiler := TShader'setAutoMapLocations G self map' (compiler \<sigma>)\<rparr>))
  \<and> (\<forall>self name loc \<sigma>. TShader_addUniformLocationOverride G self name loc \<sigma> =
      Returns () (\<sigma>\<lparr>compiler := TShader'addUniformLocationOverride G self name loc (compiler \<sigma>)\<rparr>))
  \<and> (\<forall>self base \<sigma>. TShader_setUniformLocationBase G self base \<sigma> =
      Returns () (\<sigma>\<lparr>compiler := TShader'setUniformLocationBase G self base (compiler \<sigma>)\<rparr>))
  \<and> (\<forall>self invert \<sigma>. TShader_setInvertY G self invert \<sigma> =
      Returns () (\<sigma>\<lparr>compiler := TShader'setInvertY G self invert (compiler \<sigma>)\<rparr>))
  \<and> (\<forall>self useUnknownFormat \<sigma>. TShader_setNoStorageFormat G self useUnknownFormat \<sigma> =
      Returns () (\<sigma>\<lparr>compiler := TShader'setNoStorageFormat G self useUnknownFormat (compiler \<sigma>)\<rparr>))
  \<and> (\<forall>self nanMinMaxClamp \<sigma>. TShader_setNanMinMaxClamp G self nanMinMaxClamp \<sigma> =
      Returns () (\<sigma>\<lparr>compiler := TShader'setNanMinMaxClamp G self nanMinMaxClamp (compiler \<sigma>)\<rparr>))
  \<and> (\<forall>self mode \<sigma>. TShader_setTextureSamplerTransformMode G self mode \<sigma> =
      Returns () (\<sigma>\<lparr>compiler := TShader'setTextureSamplerTransformMode G self mode (compiler \<sigma>)\<rparr>))
  \<and> (\<forall>self nameStr backing \<sigma>. TShader_addBlockStorageOverride G self nameStr backing \<sigma> =
      Returns () (\<sigma>\<lparr>compiler := TShader'addBlockStorageOverride G self nameStr backing (compiler
          \<sigma>)\<rparr>))
  \<and> (\<forall>self name \<sigma>. TShader_setGlobalUniformBlockName G self name \<sigma> =
      Returns () (\<sigma>\<lparr>compiler := TShader'setGlobalUniformBlockName G self name (compiler \<sigma>)\<rparr>))
  \<and> (\<forall>self name \<sigma>. TShader_setAtomicCounterBlockName G self name \<sigma> =
      Returns () (\<sigma>\<lparr>compiler := TShader'setAtomicCounterBlockName G self name (compiler \<sigma>)\<rparr>))
  \<and> (\<forall>self set' \<sigma>. TShader_setGlobalUniformSet G self set' \<sigma> =
      Returns () (\<sigma>\<lparr>compiler := TShader'setGlobalUniformSet G self set' (compiler \<sigma>)\<rparr>))
  \<and> (\<forall>self binding \<sigma>. TShader_setGlobalUniformBinding G self binding \<sigma> =
      Returns () (\<sigma>\<lparr>compiler := TShader'setGlobalUniformBinding G self binding (compiler \<sigma>)\<rparr>))
  \<and> (\<forall>self set' \<sigma>. TShader_setAtomicCounterBlockSet G self set' \<sigma> =
      Returns () (\<sigma>\<lparr>compiler := TShader'setAtomicCounterBlockSet G self set' (compiler \<sigma>)\<rparr>))
  \<and> (\<forall>self binding \<sigma>. TShader_setAtomicCounterBlockBinding G self binding \<sigma> =
      Returns () (\<sigma>\<lparr>compiler := TShader'setAtomicCounterBlockBinding G self binding (compiler
          \<sigma>)\<rparr>))
  \<and> (\<forall>self lang envStage client version \<sigma>. TShader_setEnvInput G self lang envStage client version
      \<sigma> =
      Returns () (\<sigma>\<lparr>compiler := TShader'setEnvInput G self lang envStage client version (compiler
          \<sigma>)\<rparr>))
  \<and> (\<forall>self client version \<sigma>. TShader_setEnvClient G self client version \<sigma> =
      Returns () (\<sigma>\<lparr>compiler := TShader'setEnvClient G self client version (compiler \<sigma>)\<rparr>))
  \<and> (\<forall>self lang version \<sigma>. TShader_setEnvTarget G self lang version \<sigma> =
      Returns () (\<sigma>\<lparr>compiler := TShader'setEnvTarget G self lang version (compiler \<sigma>)\<rparr>))
  \<and> (\<forall>self s n \<sigma>. TShader_getStrings G self s n \<sigma> =
      (if s = nullptr \<or> n = nullptr then Undefined
       else Returns () (\<sigma>\<lparr>ptr_mem := (ptr_mem \<sigma>)(s := fst (TShader'getStrings G self (compiler
           \<sigma>))),
         int_mem := (int_mem \<sigma>)(n := snd (TShader'getStrings G self (compiler \<sigma>)))\<rparr>)))
  \<and> (\<forall>self \<sigma>. TShader_getEnvTargetHlslFunctionality1 G self \<sigma> =
      Returns (TShader'getEnvTargetHlslFunctionality1 G self (compiler \<sigma>)) \<sigma>)
  \<and> (\<forall>self \<sigma>. TShader_setEnvInputVulkanRulesRelaxed G self \<sigma> =
      Returns () (\<sigma>\<lparr>compiler := TShader'setEnvInputVulkanRulesRelaxed G self (compiler \<sigma>)\<rparr>))
  \<and> (\<forall>self \<sigma>. TShader_getEnvInputVulkanRulesRelaxed G self \<sigma> =
      Returns (TShader'getEnvInputVulkanRulesRelaxed G self (compiler \<sigma>)) \<sigma>)
  \<and> (\<forall>self res defaultVersion defaultProfile forceDefaultVersionAndProfile forwardCompatible
      messages \<sigma>. TShader_parse G self res defaultVersion defaultProfile
      forceDefaultVersionAndProfile forwardCompatible messages \<sigma> =
      Returns (fst (TShader'parse G self res defaultVersion defaultProfile
          forceDefaultVersionAndProfile forwardCompatible messages (compiler \<sigma>)))
        (\<sigma>\<lparr>compiler := snd (TShader'parse G self res defaultVersion defaultProfile
            forceDefaultVersionAndProfile forwardCompatible messages (compiler \<sigma>))\<rparr>))
  \<and> (\<forall>self res defaultVersion forwardCompatible messages \<sigma>. TShader_parse1 G self res
      defaultVersion forwardCompatible messages \<sigma> =
      Returns (fst (TShader'parse_reduced G self res defaultVersion forwardCompatible messages
          (compiler \<sigma>)))
        (\<sigma>\<lparr>compiler := snd (TShader'parse_reduced G self res defaultVersion forwardCompatible
            messages (compiler \<sigma>))\<rparr>))
  \<and> (\<forall>self \<sigma>. TShader_getInfoLog G self \<sigma> =
      Returns (TShader'getInfoLog G self (compiler \<sigma>)) \<sigma>)
  \<and> (\<forall>self \<sigma>. TShader_getInfoDebugLog G self \<sigma> =
      Returns (TShader'getInfoDebugLog G self (compiler \<sigma>)) \<sigma>)
  \<and> (\<forall>self \<sigma>. TShader_getStage G self \<sigma> =
      Returns (TShader'getStage G self (compiler \<sigma>)) \<sigma>)
  \<and> (\<forall>self \<sigma>. TShader_getIntermediate G self \<sigma> =
      Returns (TShader'getIntermediate G self (compiler \<sigma>)) \<sigma>)
  \<and> (\<forall>self \<sigma>. TShader_destroy G self \<sigma> =
      (if self = nullptr then Returns () \<sigma>
       else if self \<in> set (shaders \<sigma>) then
         Returns () (\<sigma>\<lparr>shaders := removeAll self (shaders \<sigma>),
           compiler := TShader'dtor G self (compiler \<sigma>)\<rparr>)
       else Undefined))
  \<and> (\<forall>\<sigma> r. TProgram_create G \<sigma> r \<longleftrightarrow>
      r = Throws bad_alloc \<or>
      (\<exists>p. r = Returns p (\<sigma>\<lparr>programs := p # programs \<sigma>,
          compiler := TProgram'ctor G p (compiler \<sigma>)\<rparr>) \<and>
        fresh_storage \<sigma> p))
  \<and> (\<forall>self shader \<sigma>. TProgram_addShader G self shader \<sigma> =
      Returns () (\<sigma>\<lparr>compiler := TProgram'addShader G self shader (compiler \<sigma>)\<rparr>))
  \<and> (\<forall>self messages \<sigma>. TProgram_link G self messages \<sigma> =
      Returns (fst (TProgram'link G self messages (compiler \<sigma>)))
        (\<sigma>\<lparr>compiler := snd (TProgram'link G self messages (compiler \<sigma>))\<rparr>))
  \<and> (\<forall>self \<sigma>. TProgram_getInfoLog G self \<sigma> =
      Returns (TProgram'getInfoLog G self (compiler \<sigma>)) \<sigma>)
  \<and> (\<forall>self \<sigma>. TProgram_getInfoDebugLog G self \<sigma> =
      Returns (TProgram'getInfoDebugLog G self (compiler \<sigma>)) \<sigma>)
  \<and> (\<forall>self stage \<sigma>. TProgram_getIntermediate G self stage \<sigma> =
      Returns (TProgram'getIntermediate G self stage (compiler \<sigma>)) \<sigma>)
  \<and> (\<forall>self opts \<sigma>. TProgram_buildReflection G self opts \<sigma> =
      Returns (fst (TProgram'buildReflection G self opts (compiler \<sigma>)))
        (\<sigma>\<lparr>compiler := snd (TProgram'buildReflection G self opts (compiler \<sigma>))\<rparr>))
  \<and> (\<forall>self name inOrOut \<sigma>. TProgram_getPipeIOIndex G self name inOrOut \<sigma> =
      Returns (TProgram'getPipeIOIndex G self name inOrOut (compiler \<sigma>)) \<sigma>)
  \<and> (\<forall>self \<sigma>. TProgram_getNumLiveUniformVariables G self \<sigma> =
      Returns (TProgram'getNumLiveUniformVariables G self (compiler \<sigma>)) \<sigma>)
  \<and> (\<forall>self \<sigma>. TProgram_getNumLiveUniformBlocks G self \<sigma> =
      Returns (TProgram'getNumLiveUniformBlocks G self (compiler \<sigma>)) \<sigma>)
  \<and> (\<forall>self \<sigma>. TProgram_getNumLiveAttributes G self \<sigma> =
      Returns (TProgram'getNumLiveAttributes G self (compiler \<sigma>)) \<sigma>)
  \<and> (\<forall>self name \<sigma>. TProgram_getUniformIndex G self name \<sigma> =
      Returns (TProgram'getUniformIndex G self name (compiler \<sigma>)) \<sigma>)
  \<and> (\<forall>self index \<sigma>. TProgram_getUniformName G self index \<sigma> =
      Returns (TProgram'getUniformName G self index (compiler \<sigma>)) \<sigma>)
  \<and> (\<forall>self index \<sigma>. TProgram_getUniformBinding G self index \<sigma> =
      Returns (TProgram'getUniformBinding G self index (compiler \<sigma>)) \<sigma>)
  \<and> (\<forall>self index \<sigma>. TProgram_getUniformStages G self index \<sigma> =
      Returns (TProgram'getUniformStages G self index (compiler \<sigma>)) \<sigma>)
  \<and> (\<forall>self index \<sigma>. TProgram_getUniformBlockIndex G self index \<sigma> =
      Returns (TProgram'getUniformBlockIndex G self index (compiler \<sigma>)) \<sigma>)
  \<and> (\<forall>self index \<sigma>. TProgram_getUniformType G self index \<sigma> =
      Returns (TProgram'getUniformType G self index (compiler \<sigma>)) \<sigma>)
  \<and> (\<forall>self index \<sigma>. TProgram_getUniformBufferOffset G self index \<sigma> =
      Returns (TProgram'getUniformBufferOffset G self index (compiler \<sigma>)) \<sigma>)
  \<and> (\<forall>self index \<sigma>. TProgram_getUniformArraySize G self index \<sigma> =
      Returns (TProgram'getUniformArraySize G self index (compiler \<sigma>)) \<sigma>)
  \<and> (\<forall>self index \<sigma>. TProgram_getUniformBlockName G self index \<sigma> =
      Returns (TProgram'getUniformBlockName G self index (compiler \<sigma>)) \<sigma>)
  \<and> (\<forall>self index \<sigma>. TProgram_getUniformBlockSize G self index \<sigma> =
      Returns (TProgram'getUniformBlockSize G self index (compiler \<sigma>)) \<sigma>)
  \<and> (\<forall>self index \<sigma>. TProgram_getUniformBlockBinding G self index \<sigma> =
      Returns (TProgram'getUniformBlockBinding G self index (compiler \<sigma>)) \<sigma>)
  \<and> (\<forall>self index \<sigma>. TProgram_getUniformBlockCounterIndex G self index \<sigma> =
      Returns (TProgram'getUniformBlockCounterIndex G self index (compiler \<sigma>)) \<sigma>)
  \<and> (\<forall>self index \<sigma>. TProgram_getAttributeName G self index \<sigma> =
      Returns (TProgram'getAttributeName G self index (compiler \<sigma>)) \<sigma>)
  \<and> (\<forall>self index \<sigma>. TProgram_getAttributeType G self index \<sigma> =
      Returns (TProgram'getAttributeType G self index (compiler \<sigma>)) \<sigma>)
  \<and> (\<forall>self \<sigma>. TProgram_dumpReflection G self \<sigma> =
      Returns () (\<sigma>\<lparr>compiler := TProgram'dumpReflection G self (compiler \<sigma>)\<rparr>))
  \<and> (\<forall>self \<sigma>. TProgram_destroy G self \<sigma> =
      (if self = nullptr then Returns () \<sigma>
       else if self \<in> set (programs \<sigma>) then
         Returns () (\<sigma>\<lparr>programs := removeAll self (programs \<sigma>),
           compiler := TProgram'dtor G self (compiler \<sigma>)\<rparr>)
       else Undefined))"
  by (intro conjI allI; simp add: glue_defs forwarding_shapes TShader_create.simps
      TProgram_create.simps)

theorem glue_forwards_witness:
  "TShader_parse sample_glslang (Addr 16) (Addr 8) (Int32 450) (Int32 0) False False (Int32 0)
     sample_process =
   Returns True (sample_process\<lparr>compiler := touch (Addr 16) (compiler sample_process)\<rparr>)
   \<and> TProgram_getUniformName sample_glslang (Addr 32) (Int32 3) sample_process =
     Returns (Addr 32) sample_process"
  using glue_forwards [of sample_glslang] by (simp add: sample_glslang_simps)

subsection \<open>The reduced parse\<close>

text \<open>
  C2. \<^verbatim>\<open>TShader_parse1\<close> returns, for every handle and every resource limits, default
  version, forward-compatible flag and messages, the boolean of the wrapped compiler's
  four-argument \<^verbatim>\<open>parse\<close> on those arguments, and leaves the state that call leaves.
  Where that overload is the full \<^verbatim>\<open>parse\<close> at a fixed profile and force flag (the
  compiler's defaults), \<^verbatim>\<open>TShader_parse1\<close> is \<^verbatim>\<open>TShader_parse\<close> at that profile and
  flag.
\<close>

theorem TShader_parse1_is_reduced_parse:
  "TShader_parse1 G self res defaultVersion forwardCompatible messages \<sigma> =
     Returns
       (fst (TShader'parse_reduced G self res defaultVersion forwardCompatible messages
          (compiler \<sigma>)))
       (\<sigma>\<lparr>compiler :=
          snd (TShader'parse_reduced G self res defaultVersion forwardCompatible messages
            (compiler \<sigma>))\<rparr>)
   \<and> ((\<forall>w. TShader'parse_reduced G self res defaultVersion forwardCompatible messages w =
            TShader'parse G self res defaultVersion defaultProfile force forwardCompatible
              messages w) \<longrightarrow>
        TShader_parse1 G self res defaultVersion forwardCompatible messages \<sigma> =
        TShader_parse G self res defaultVersion defaultProfile force forwardCompatible
          messages \<sigma>)"
  by (simp add: TShader_parse1_def TShader_parse_def forwarding_shapes)

theorem TShader_parse1_is_reduced_parse_witness:
  "TShader_parse1 sample_glslang (Addr 16) (Addr 8) (Int32 450) False (Int32 0) sample_process =
     Returns True (sample_process\<lparr>compiler := touch (Addr 16) (compiler sample_process)\<rparr>)
   \<and> TShader_parse1 sample_glslang (Addr 16) (Addr 8) (Int32 450) False (Int32 0) sample_process =
     TShader_parse sample_glslang (Addr 16) (Addr 8) (Int32 450) (Int32 0) False False (Int32 0)
       sample_process"
  using TShader_parse1_is_reduced_parse
    [of sample_glslang "Addr 16" "Addr 8" "Int32 450" False "Int32 0" sample_process
      "Int32 0" False]
  by (auto simp: sample_glslang_simps)

subsection \<open>The out-parameters of getStrings\<close>

text \<open>
  C10. \<^verbatim>\<open>TShader_getStrings\<close> dereferences both out-parameters without a check: with
  a null one the call is undefined. With both non-null the call returns, the location
  \<open>s\<close> holds the fragment-array pointer and the location \<open>n\<close> the fragment count that
  the wrapped object reports, no other location of the caller's memory changes, and the
  compiler's state (so the CompilationUnit's) and the live objects are as before.
\<close>

theorem TShader_getStrings_out_parameters:
  "(s = nullptr \<or> n = nullptr \<longrightarrow> TShader_getStrings G self s n \<sigma> = Undefined)
   \<and> (s \<noteq> nullptr \<and> n \<noteq> nullptr \<longrightarrow>
        (\<exists>\<sigma>'. TShader_getStrings G self s n \<sigma> = Returns () \<sigma>'
           \<and> ptr_mem \<sigma>' s = fst (TShader'getStrings G self (compiler \<sigma>))
           \<and> int_mem \<sigma>' n = snd (TShader'getStrings G self (compiler \<sigma>))
           \<and> (\<forall>a. a \<noteq> s \<longrightarrow> ptr_mem \<sigma>' a = ptr_mem \<sigma> a)
           \<and> (\<forall>a. a \<noteq> n \<longrightarrow> int_mem \<sigma>' a = int_mem \<sigma> a)
           \<and> compiler \<sigma>' = compiler \<sigma>
           \<and> shaders \<sigma>' = shaders \<sigma> \<and> programs \<sigma>' = programs \<sigma>))"
  by (simp add: TShader_getStrings_def forwarding_shapes)

theorem TShader_getStrings_out_parameters_witness:
  "Addr 96 \<noteq> nullptr \<and> Addr 104 \<noteq> nullptr
   \<and> (\<exists>\<sigma>'. TShader_getStrings sample_glslang (Addr 16) (Addr 96) (Addr 104) sample_process =
          Returns () \<sigma>'
        \<and> ptr_mem \<sigma>' (Addr 96) = Addr 16 \<and> int_mem \<sigma>' (Addr 104) = Int32 2
        \<and> compiler \<sigma>' = compiler sample_process)
   \<and> TShader_getStrings sample_glslang (Addr 16) nullptr (Addr 104) sample_process = Undefined"
  using TShader_getStrings_out_parameters
      [of "Addr 96" "Addr 104" sample_glslang "Addr 16" sample_process]
    TShader_getStrings_out_parameters
      [of nullptr "Addr 104" sample_glslang "Addr 16" sample_process]
  by (auto simp: sample_glslang_simps nullptr_def)

subsection \<open>The version\<close>

text \<open>
  C6. Any two invocations of \<^verbatim>\<open>get_version\<close> in one process, in whatever states of
  the process they are made, return versions that are equal field by field (major,
  minor, patch, flavor string), and neither changes the state.
\<close>

theorem get_version_stable:
  "\<exists>v1 v2. get_version G \<sigma>1 = Returns v1 \<sigma>1 \<and> get_version G \<sigma>2 = Returns v2 \<sigma>2
     \<and> major v1 = major v2 \<and> minor v1 = minor v2 \<and> patch v1 = patch v2
     \<and> flavor v1 = flavor v2"
  by (simp add: get_version_def call_get_def)

theorem get_version_stable_witness:
  "\<exists>v1 v2. get_version sample_glslang sample_process = Returns v1 sample_process
     \<and> get_version sample_glslang
          (sample_process\<lparr>shaders := [], compiler := touch (Addr 32) (compiler sample_process)\<rparr>) =
        Returns v2
          (sample_process\<lparr>shaders := [], compiler := touch (Addr 32) (compiler sample_process)\<rparr>)
     \<and> major v1 = major v2 \<and> minor v1 = minor v2 \<and> patch v1 = patch v2
     \<and> flavor v1 = flavor v2"
  using get_version_stable
    [of sample_glslang sample_process
      "sample_process\<lparr>shaders := [], compiler := touch (Addr 32) (compiler sample_process)\<rparr>"]
  by simp


subsection \<open>Live handles\<close>

lemma live_frame:
  "live (\<sigma>\<lparr>compiler := w\<rparr>) = live \<sigma>"
  "live (\<sigma>\<lparr>ptr_mem := pm, int_mem := im\<rparr>) = live \<sigma>"
  by (simp_all add: live_def)

lemma handles_ok_frame:
  "handles_ok (\<sigma>\<lparr>compiler := w\<rparr>) = handles_ok \<sigma>"
  "handles_ok (\<sigma>\<lparr>ptr_mem := pm, int_mem := im\<rparr>) = handles_ok \<sigma>"
  by (simp_all add: handles_ok_def live_def)

lemma create_Returns:
  "TShader_create G lang \<sigma> (Returns p \<sigma>') \<Longrightarrow>
     fresh_storage \<sigma> p \<and> shaders \<sigma>' = p # shaders \<sigma> \<and> programs \<sigma>' = programs \<sigma>"
  "TProgram_create G \<sigma> (Returns p \<sigma>') \<Longrightarrow>
     fresh_storage \<sigma> p \<and> programs \<sigma>' = p # programs \<sigma> \<and> shaders \<sigma>' = shaders \<sigma>"
  by (auto simp: TShader_create.simps TProgram_create.simps)

lemma handles_ok_new:
  assumes "handles_ok \<sigma>" "fresh_storage \<sigma> p"
    and "shaders \<sigma>' = p # shaders \<sigma> \<and> programs \<sigma>' = programs \<sigma> \<or>
         programs \<sigma>' = p # programs \<sigma> \<and> shaders \<sigma>' = shaders \<sigma>"
  shows "handles_ok \<sigma>' \<and> p \<noteq> nullptr \<and> p \<notin> live \<sigma> \<and> live \<sigma>' = insert p (live \<sigma>)"
  using assms by (auto simp: handles_ok_def live_def fresh_storage_def)

lemma Returns_returning_iff:
  "Returns v s = returning f r \<longleftrightarrow> (\<exists>a. r = Returns a s \<and> v = f a)"
  by (cases r) auto

lemma sample_process_ok: "handles_ok sample_process"
  by (simp add: handles_ok_def live_def sample_process_def nullptr_def)

text \<open>
  C9. A create operation that succeeds returns a handle that is not null and is the
  handle of no object alive at that moment, and it makes that handle alive. No other
  operation makes a handle alive. A live handle stays alive through every operation but
  the destroy operation called on it. So from a state in which no two live objects share
  a handle and none is null, every operation that returns leads to such a state.
\<close>

theorem live_handles_stay_unique:
  assumes ok: "handles_ok \<sigma>"
    and step: "boundary G (name, args) \<sigma> (Returns v \<sigma>')"
  shows "handles_ok \<sigma>'
    \<and> (name \<in> set create_operations \<longrightarrow>
          (\<exists>p. v = RPtr p \<and> p \<noteq> nullptr \<and> p \<notin> live \<sigma> \<and> live \<sigma>' = insert p (live \<sigma>)))
    \<and> (name \<notin> set create_operations \<longrightarrow> live \<sigma>' \<subseteq> live \<sigma>)
    \<and> (\<forall>h \<in> live \<sigma>. h \<notin> live \<sigma>' \<longrightarrow>
          (name = ''TShader_destroy'' \<or> name = ''TProgram_destroy'') \<and> args = [APtr h])"
  using step ok
  apply (cases rule: boundary.cases)
  apply (simp_all add: returning_Returns_iff glue_defs forwarding_shapes create_operations_def
      live_frame handles_ok_frame)
      apply (auto simp: Returns_returning_iff dest!: create_Returns(1) dest: handles_ok_new)[1]
     apply (auto simp: Returns_returning_iff live_frame handles_ok_frame split: if_splits
         prod.splits)[1]
    apply (auto simp: Returns_returning_iff live_def handles_ok_def distinct_removeAll split:
        if_splits)[1]
   apply (auto simp: Returns_returning_iff dest!: create_Returns(2) dest: handles_ok_new)[1]
  apply (auto simp: Returns_returning_iff live_def handles_ok_def distinct_removeAll split:
      if_splits)[1]
  done

theorem live_handles_stay_unique_witness:
  "handles_ok sample_process
   \<and> boundary sample_glslang (''TShader_create'', [AInt (Int32 4)]) sample_process
       (Returns (RPtr (Addr 48))
          (sample_process\<lparr>shaders := Addr 48 # shaders sample_process,
             compiler := TShader'ctor sample_glslang (Addr 48) (Int32 4)
               (compiler sample_process)\<rparr>))
   \<and> handles_ok
       (sample_process\<lparr>shaders := Addr 48 # shaders sample_process,
          compiler := TShader'ctor sample_glslang (Addr 48) (Int32 4)
            (compiler sample_process)\<rparr>)
   \<and> Addr 48 \<notin> live sample_process"
proof -
  have fresh: "fresh_storage sample_process (Addr 48)"
    by (simp add: fresh_storage_def sample_process_def nullptr_def)
  have step: "boundary sample_glslang (''TShader_create'', [AInt (Int32 4)]) sample_process
       (Returns (RPtr (Addr 48))
          (sample_process\<lparr>shaders := Addr 48 # shaders sample_process,
             compiler := TShader'ctor sample_glslang (Addr 48) (Int32 4)
               (compiler sample_process)\<rparr>))"
    using boundary.TShader_create [OF TShader_create_new [OF fresh]] by simp
  from live_handles_stay_unique [OF sample_process_ok step] sample_process_ok step
  show ?thesis by (simp add: create_operations_def)
qed

subsection \<open>Exceptions\<close>

lemma crossing_iff:
  "crossing G X (name, args) \<sigma> out \<longleftrightarrow>
     (\<exists>out'. boundary G (name, args) \<sigma> out' \<and>
        out = unwinding
          (if name \<in> set destroy_operations then None else X name args (compiler \<sigma>)) out')"
  by (auto simp: crossing.simps)

lemma unwinding_Throws_iff:
  "unwinding x out = Throws e \<longleftrightarrow>
     out = Throws e \<or> (\<exists>a s. x = Some e \<and> out = Returns a s)"
  by (cases x; cases out) auto

inductive_simps boundary_fallible:
  "boundary G (''initialize_process'', args) \<sigma> out"
  "boundary G (''TShader_parse'', args) \<sigma> out"
  "boundary G (''TShader_parse1'', args) \<sigma> out"
  "boundary G (''TProgram_link'', args) \<sigma> out"
  "boundary G (''TProgram_buildReflection'', args) \<sigma> out"
  "boundary G (''TProgram_getUniformIndex'', args) \<sigma> out"
  "boundary G (''TProgram_getPipeIOIndex'', args) \<sigma> out"

text \<open>
  C3, as the code has it. An exception leaves a function of the boundary only when it
  was raised inside the wrapped call of that function, or is the \<^verbatim>\<open>std::bad_alloc\<close>
  of the new-expression of a create operation; and whatever is raised inside the
  wrapped call of a function that would have returned does leave it, since the glue
  catches nothing. Each fallible operation (process initialisation, parse in both
  arities, link, the reflection build, the two lookups of an index by name) ends in
  exactly one way: with the exception raised inside its wrapped call, or else
  returning the boolean or the index that call returned, with the state it left. The
  return value is its only report of a failure.
\<close>

theorem exceptions_cross_uncaught:
  "(crossing G X (name, args) \<sigma> (Throws e) \<longrightarrow>
      name \<notin> set destroy_operations \<and> X name args (compiler \<sigma>) = Some e
      \<or> name \<in> set create_operations \<and> e = bad_alloc)
   \<and> (name \<notin> set destroy_operations \<and> X name args (compiler \<sigma>) = Some e
        \<and> boundary G (name, args) \<sigma> (Returns v \<sigma>') \<longrightarrow>
      crossing G X (name, args) \<sigma> (Throws e))
   \<and> (\<forall>\<sigma> out.
        crossing G X (''initialize_process'', []) \<sigma> out \<longleftrightarrow>
        out = unwinding (X ''initialize_process'' [] (compiler \<sigma>))
          (Returns (RBool (fst (glslang'InitializeProcess G (compiler \<sigma>))))
             (\<sigma>\<lparr>compiler := snd (glslang'InitializeProcess G (compiler \<sigma>))\<rparr>)))
   \<and> (\<forall>self res defaultVersion defaultProfile force forwardCompatible messages \<sigma> out.
        crossing G X
          (''TShader_parse'',
           [APtr self, APtr res, AInt defaultVersion, AInt defaultProfile, ABool force,
            ABool forwardCompatible, AInt messages]) \<sigma> out \<longleftrightarrow>
        out = unwinding
          (X ''TShader_parse''
             [APtr self, APtr res, AInt defaultVersion, AInt defaultProfile, ABool force,
              ABool forwardCompatible, AInt messages] (compiler \<sigma>))
          (Returns
             (RBool (fst (TShader'parse G self res defaultVersion defaultProfile force
                forwardCompatible messages (compiler \<sigma>))))
             (\<sigma>\<lparr>compiler := snd (TShader'parse G self res defaultVersion defaultProfile force
                forwardCompatible messages (compiler \<sigma>))\<rparr>)))
   \<and> (\<forall>self res defaultVersion forwardCompatible messages \<sigma> out.
        crossing G X
          (''TShader_parse1'',
           [APtr self, APtr res, AInt defaultVersion, ABool forwardCompatible, AInt messages])
          \<sigma> out \<longleftrightarrow>
        out = unwinding
          (X ''TShader_parse1''
             [APtr self, APtr res, AInt defaultVersion, ABool forwardCompatible, AInt messages]
             (compiler \<sigma>))
          (Returns
             (RBool (fst (TShader'parse_reduced G self res defaultVersion forwardCompatible
                messages (compiler \<sigma>))))
             (\<sigma>\<lparr>compiler := snd (TShader'parse_reduced G self res defaultVersion
                forwardCompatible messages (compiler \<sigma>))\<rparr>)))
   \<and> (\<forall>self messages \<sigma> out.
        crossing G X (''TProgram_link'', [APtr self, AInt messages]) \<sigma> out \<longleftrightarrow>
        out = unwinding (X ''TProgram_link'' [APtr self, AInt messages] (compiler \<sigma>))
          (Returns (RBool (fst (TProgram'link G self messages (compiler \<sigma>))))
             (\<sigma>\<lparr>compiler := snd (TProgram'link G self messages (compiler \<sigma>))\<rparr>)))
   \<and> (\<forall>self opts \<sigma> out.
        crossing G X (''TProgram_buildReflection'', [APtr self, AInt opts]) \<sigma> out \<longleftrightarrow>
        out = unwinding (X ''TProgram_buildReflection'' [APtr self, AInt opts] (compiler \<sigma>))
          (Returns (RBool (fst (TProgram'buildReflection G self opts (compiler \<sigma>))))
             (\<sigma>\<lparr>compiler := snd (TProgram'buildReflection G self opts (compiler \<sigma>))\<rparr>)))
   \<and> (\<forall>self name' \<sigma> out.
        crossing G X (''TProgram_getUniformIndex'', [APtr self, APtr name']) \<sigma> out \<longleftrightarrow>
        out = unwinding (X ''TProgram_getUniformIndex'' [APtr self, APtr name'] (compiler \<sigma>))
          (Returns (RInt (TProgram'getUniformIndex G self name' (compiler \<sigma>))) \<sigma>))
   \<and> (\<forall>self name' inOrOut \<sigma> out.
        crossing G X (''TProgram_getPipeIOIndex'', [APtr self, APtr name', ABool inOrOut]) \<sigma> out
          \<longleftrightarrow>
        out = unwinding
          (X ''TProgram_getPipeIOIndex'' [APtr self, APtr name', ABool inOrOut] (compiler \<sigma>))
          (Returns (RInt (TProgram'getPipeIOIndex G self name' inOrOut (compiler \<sigma>))) \<sigma>))"
proof (intro conjI)
  show "crossing G X (name, args) \<sigma> (Throws e) \<longrightarrow>
      name \<notin> set destroy_operations \<and> X name args (compiler \<sigma>) = Some e
      \<or> name \<in> set create_operations \<and> e = bad_alloc"
  proof
    assume "crossing G X (name, args) \<sigma> (Throws e)"
    then obtain out' where b: "boundary G (name, args) \<sigma> out'"
      and u: "unwinding
          (if name \<in> set destroy_operations then None else X name args (compiler \<sigma>)) out'
        = Throws e"
      by (auto simp: crossing_iff)
    from u have "out' = Throws e \<or>
        name \<notin> set destroy_operations \<and> X name args (compiler \<sigma>) = Some e"
      by (auto simp: unwinding_Throws_iff split: if_splits)
    moreover have "name \<in> set create_operations \<and> e = bad_alloc" if "out' = Throws e"
      using b unfolding that
      apply (cases rule: boundary.cases)
      apply (simp_all add: glue_defs forwarding_shapes create_operations_def split: if_splits)
      apply (auto simp: returning_Throws_iff TShader_create.simps TProgram_create.simps
          dest!: sym [of "Throws e"])
      done
    ultimately show "name \<notin> set destroy_operations \<and> X name args (compiler \<sigma>) = Some e
        \<or> name \<in> set create_operations \<and> e = bad_alloc"
      by blast
  qed
next
  show "name \<notin> set destroy_operations \<and> X name args (compiler \<sigma>) = Some e
        \<and> boundary G (name, args) \<sigma> (Returns v \<sigma>') \<longrightarrow>
      crossing G X (name, args) \<sigma> (Throws e)"
    by (auto simp: crossing_iff intro!: exI [of _ "Returns v \<sigma>'"])
qed (auto simp: crossing_iff boundary_fallible destroy_operations_def
      initialize_process_def TShader_parse_def TShader_parse1_def TProgram_link_def
      TProgram_buildReflection_def TProgram_getUniformIndex_def TProgram_getPipeIOIndex_def
      forwarding_shapes)

theorem exceptions_cross_uncaught_witness:
  "crossing sample_glslang sample_raising
     (''TShader_parse'',
      [APtr (Addr 16), APtr (Addr 8), AInt (Int32 450), AInt (Int32 0), ABool False, ABool False,
       AInt (Int32 0)]) sample_process
     (Throws (other_exception ''std::length_error''))
   \<and> crossing sample_glslang sample_raising (''TProgram_link'', [APtr (Addr 32), AInt (Int32 0)])
       sample_process
       (Returns (RBool True)
          (sample_process\<lparr>compiler := touch (Addr 32) (compiler sample_process)\<rparr>))
   \<and> \<not> crossing sample_glslang sample_raising
       (''TProgram_link'', [APtr (Addr 32), AInt (Int32 0)]) sample_process (Throws bad_alloc)"
proof -
  have parse: "boundary sample_glslang
      (''TShader_parse'',
       [APtr (Addr 16), APtr (Addr 8), AInt (Int32 450), AInt (Int32 0), ABool False, ABool False,
        AInt (Int32 0)]) sample_process
      (Returns (RBool True)
         (sample_process\<lparr>compiler := touch (Addr 16) (compiler sample_process)\<rparr>))"
    using boundary.TShader_parse
      [of sample_glslang "Addr 16" "Addr 8" "Int32 450" "Int32 0" False False "Int32 0"
        sample_process]
    by (simp add: TShader_parse_def forwarding_shapes sample_glslang_simps)
  note inst = exceptions_cross_uncaught [of sample_glslang sample_raising]
  have "crossing sample_glslang sample_raising
     (''TShader_parse'',
      [APtr (Addr 16), APtr (Addr 8), AInt (Int32 450), AInt (Int32 0), ABool False, ABool False,
       AInt (Int32 0)]) sample_process
     (Throws (other_exception ''std::length_error''))"
    using inst [of "''TShader_parse''" _ sample_process "other_exception ''std::length_error''",
        THEN conjunct2, THEN conjunct1] parse
    by (simp add: sample_raising_def destroy_operations_def)
  moreover have "crossing sample_glslang sample_raising
       (''TProgram_link'', [APtr (Addr 32), AInt (Int32 0)]) sample_process
       (Returns (RBool True)
          (sample_process\<lparr>compiler := touch (Addr 32) (compiler sample_process)\<rparr>))"
    using inst [of "''TProgram_link''" "[]" sample_process bad_alloc]
    by (simp add: sample_raising_def sample_glslang_simps sample_process_def)
  moreover have "\<not> crossing sample_glslang sample_raising
       (''TProgram_link'', [APtr (Addr 32), AInt (Int32 0)]) sample_process (Throws bad_alloc)"
    using inst [of "''TProgram_link''" "[APtr (Addr 32), AInt (Int32 0)]" sample_process
        bad_alloc]
    by (simp add: sample_raising_def create_operations_def)
  ultimately show ?thesis by simp
qed

text \<open>
  The claim that no operation raises across the boundary fails at a create operation,
  even with a compiler that raises nothing: when the allocation fails,
  \<^verbatim>\<open>std::bad_alloc\<close> leaves \<^verbatim>\<open>TShader_create\<close>.
\<close>

theorem create_raises_bad_alloc:
  "crossing sample_glslang (\<lambda>name args w. None) (''TShader_create'', [AInt (Int32 4)])
     sample_process (Throws bad_alloc)"
proof -
  have "boundary sample_glslang (''TShader_create'', [AInt (Int32 4)]) sample_process
      (Throws bad_alloc)"
    using boundary.TShader_create [OF TShader_create_bad_alloc] by simp
  from crossing.crossing [OF this, of "\<lambda>name args w. None"]
  show ?thesis by (simp add: destroy_operations_def)
qed

subsection \<open>Setters\<close>

lemma crossing_exists:
  "boundary G (name, args) \<sigma> out' \<Longrightarrow> \<exists>out. crossing G X (name, args) \<sigma> out"
  by (blast intro: crossing.intros)

lemma recorded_objects:
  "objects w this = Some h \<Longrightarrow> objects (recorded m a this w) this = Some (h @ [(m, a)])"
  "that \<noteq> this \<Longrightarrow> objects (recorded m a this w) that = objects w that"
  by (simp_all add: recorded_def)

text \<open>
  C4. With the setters, parse and link of the wrapped classes as the spec describes
  them, a call of any configuration setter on a unit, with any argument values, returns
  nothing and signals nothing: it ends in a normal return of no result, and all it has
  done is record its arguments in the unit, unchecked. What the compiler makes of the
  configuration comes out later: the next parse of the unit (in either arity) returns
  the compiler's judgement of the settings recorded so far, this one included, and a
  link returns its judgement of the settings of the attached units. Every setter can be
  called with every argument value.
\<close>

theorem setters_record_unchecked:
  assumes unit: "objects (compiler \<sigma>) self = Some h"
    and setter: "name \<in> set configuration_setters"
    and call: "crossing (recording_compiler accepts links G) (quiet_setters X)
        (name, APtr self # args) \<sigma> out"
  shows
    "(let K = recording_compiler accepts links G;
          Q = quiet_setters X;
          h' = h @ [(member_name name, args)];
          \<sigma>' = \<sigma>\<lparr>compiler := recorded (member_name name) args self (compiler \<sigma>)\<rparr>
      in out = Returns RVoid \<sigma>'
       \<and> objects (compiler \<sigma>') self = Some h'
       \<and> (\<forall>res defaultVersion defaultProfile force forwardCompatible messages out'.
            crossing K Q
              (''TShader_parse'',
               [APtr self, APtr res, AInt defaultVersion, AInt defaultProfile, ABool force,
                ABool forwardCompatible, AInt messages]) \<sigma>' out' \<longleftrightarrow>
            out' = unwinding
              (X ''TShader_parse''
                 [APtr self, APtr res, AInt defaultVersion, AInt defaultProfile, ABool force,
                  ABool forwardCompatible, AInt messages] (compiler \<sigma>'))
              (Returns
                 (RBool (accepts h'
                    [APtr res, AInt defaultVersion, AInt defaultProfile, ABool force,
                     ABool forwardCompatible, AInt messages]))
                 (\<sigma>'\<lparr>compiler := recorded ''parse''
                    [APtr res, AInt defaultVersion, AInt defaultProfile, ABool force,
                     ABool forwardCompatible, AInt messages] self (compiler \<sigma>')\<rparr>)))
       \<and> (\<forall>res defaultVersion forwardCompatible messages out'.
            crossing K Q
              (''TShader_parse1'',
               [APtr self, APtr res, AInt defaultVersion, ABool forwardCompatible,
                AInt messages]) \<sigma>' out' \<longleftrightarrow>
            out' = unwinding
              (X ''TShader_parse1''
                 [APtr self, APtr res, AInt defaultVersion, ABool forwardCompatible,
                  AInt messages] (compiler \<sigma>'))
              (Returns
                 (RBool (accepts h'
                    [APtr res, AInt defaultVersion, ABool forwardCompatible, AInt messages]))
                 (\<sigma>'\<lparr>compiler := recorded ''parse''
                    [APtr res, AInt defaultVersion, ABool forwardCompatible, AInt messages]
                    self (compiler \<sigma>')\<rparr>)))
       \<and> (\<forall>prog hp messages out'.
            objects (compiler \<sigma>') prog = Some hp \<longrightarrow>
            (crossing K Q (''TProgram_link'', [APtr prog, AInt messages]) \<sigma>' out' \<longleftrightarrow>
             out' = unwinding (X ''TProgram_link'' [APtr prog, AInt messages] (compiler \<sigma>'))
               (Returns
                  (RBool (links (map (objects (compiler \<sigma>')) (attached hp)) [AInt messages]))
                  (\<sigma>'\<lparr>compiler := recorded ''link'' [AInt messages] prog
                     (compiler \<sigma>')\<rparr>)))))
     \<and> (\<forall>s n. \<exists>out. crossing (recording_compiler accepts links G) (quiet_setters X)
         (''TShader_setStrings'', [APtr self, APtr s, AInt n]) \<sigma> out)
     \<and> (\<forall>s. \<exists>out. crossing (recording_compiler accepts links G) (quiet_setters X)
         (''TShader_setPreamble'', [APtr self, APtr s]) \<sigma> out)
     \<and> (\<forall>s l n. \<exists>out. crossing (recording_compiler accepts links G) (quiet_setters X)
         (''TShader_setStringsWithLengths'', [APtr self, APtr s, APtr l, AInt n]) \<sigma> out)
     \<and> (\<forall>s l names n. \<exists>out. crossing (recording_compiler accepts links G) (quiet_setters X)
         (''TShader_setStringsWithLengthsAndNames'', [APtr self, APtr s, APtr l, APtr names, AInt
         n]) \<sigma> out)
     \<and> (\<forall>entryPoint. \<exists>out. crossing (recording_compiler accepts links G) (quiet_setters X)
         (''TShader_setEntryPoint'', [APtr self, APtr entryPoint]) \<sigma> out)
     \<and> (\<forall>sourceEntryPointName. \<exists>out. crossing (recording_compiler accepts links G) (quiet_setters
         X) (''TShader_setSourceEntryPoint'', [APtr self, APtr sourceEntryPointName]) \<sigma> out)
     \<and> (\<forall>id'. \<exists>out. crossing (recording_compiler accepts links G) (quiet_setters X)
         (''TShader_setUniqueId'', [APtr self, AULongLong id']) \<sigma> out)
     \<and> (\<forall>res base. \<exists>out. crossing (recording_compiler accepts links G) (quiet_setters X)
         (''TShader_setShiftBinding'', [APtr self, AInt res, AUInt base]) \<sigma> out)
     \<and> (\<forall>res base set'. \<exists>out. crossing (recording_compiler accepts links G) (quiet_setters X)
         (''TShader_setShiftBindingForSet'', [APtr self, AInt res, AUInt base, AUInt set']) \<sigma> out)
     \<and> (\<forall>map'. \<exists>out. crossing (recording_compiler accepts links G) (quiet_setters X)
         (''TShader_setAutoMapBindings'', [APtr self, ABool map']) \<sigma> out)
     \<and> (\<forall>map'. \<exists>out. crossing (recording_compiler accepts links G) (quiet_setters X)
         (''TShader_setAutoMapLocations'', [APtr self, ABool map']) \<sigma> out)
     \<and> (\<forall>name loc. \<exists>out. crossing (recording_compiler accepts links G) (quiet_setters X)
         (''TShader_addUniformLocationOverride'', [APtr self, APtr name, AInt loc]) \<sigma> out)
     \<and> (\<forall>base. \<exists>out. crossing (recording_compiler accepts links G) (quiet_setters X)
         (''TShader_setUniformLocationBase'', [APtr self, AInt base]) \<sigma> out)
     \<and> (\<forall>invert. \<exists>out. crossing (recording_compiler accepts links G) (quiet_setters X)
         (''TShader_setInvertY'', [APtr self, ABool invert]) \<sigma> out)
     \<and> (\<forall>useUnknownFormat. \<exists>out. crossing (recording_compiler accepts links G) (quiet_setters X)
         (''TShader_setNoStorageFormat'', [APtr self, ABool useUnknownFormat]) \<sigma> out)
     \<and> (\<forall>nanMinMaxClamp. \<exists>out. crossing (recording_compiler accepts links G) (quiet_setters X)
         (''TShader_setNanMinMaxClamp'', [APtr self, ABool nanMinMaxClamp]) \<sigma> out)
     \<and> (\<forall>mode. \<exists>out. crossing (recording_compiler accepts links G) (quiet_setters X)
         (''TShader_setTextureSamplerTransformMode'', [APtr self, AInt mode]) \<sigma> out)
     \<and> (\<forall>nameStr backing. \<exists>out. crossing (recording_compiler accepts links G) (quiet_setters X)
         (''TShader_addBlockStorageOverride'', [APtr self, APtr nameStr, AInt backing]) \<sigma> out)
     \<and> (\<forall>name. \<exists>out. crossing (recording_compiler accepts links G) (quiet_setters X)
         (''TShader_setGlobalUniformBlockName'', [APtr self, APtr name]) \<sigma> out)
     \<and> (\<forall>name. \<exists>out. crossing (recording_compiler accepts links G) (quiet_setters X)
         (''TShader_setAtomicCounterBlockName'', [APtr self, APtr name]) \<sigma> out)
     \<and> (\<forall>set'. \<exists>out. crossing (recording_compiler accepts links G) (quiet_setters X)
         (''TShader_setGlobalUniformSet'', [APtr self, AUInt set']) \<sigma> out)
     \<and> (\<forall>binding. \<exists>out. crossing (recording_compiler accepts links G) (quiet_setters X)
         (''TShader_setGlobalUniformBinding'', [APtr self, AUInt binding]) \<sigma> out)
     \<and> (\<forall>set'. \<exists>out. crossing (recording_compiler accepts links G) (quiet_setters X)
         (''TShader_setAtomicCounterBlockSet'', [APtr self, AUInt set']) \<sigma> out)
     \<and> (\<forall>binding. \<exists>out. crossing (recording_compiler accepts links G) (quiet_setters X)
         (''TShader_setAtomicCounterBlockBinding'', [APtr self, AUInt binding]) \<sigma> out)
     \<and> (\<forall>lang envStage client version. \<exists>out. crossing (recording_compiler accepts links G)
         (quiet_setters X) (''TShader_setEnvInput'', [APtr self, AInt lang, AInt envStage, AInt
         client, AInt version]) \<sigma> out)
     \<and> (\<forall>client version. \<exists>out. crossing (recording_compiler accepts links G) (quiet_setters X)
         (''TShader_setEnvClient'', [APtr self, AInt client, AInt version]) \<sigma> out)
     \<and> (\<forall>lang version. \<exists>out. crossing (recording_compiler accepts links G) (quiet_setters X)
         (''TShader_setEnvTarget'', [APtr self, AInt lang, AInt version]) \<sigma> out)
     \<and> (\<exists>out. crossing (recording_compiler accepts links G) (quiet_setters X)
         (''TShader_setEnvInputVulkanRulesRelaxed'', [APtr self]) \<sigma> out)"
    (is "?main \<and> ?exist")
proof (rule conjI)
  have "out = Returns RVoid (\<sigma>\<lparr>compiler := recorded (member_name name) args self (compiler \<sigma>)\<rparr>)"
    using call setter
    apply (cases rule: crossing.cases)
    apply (erule boundary.cases)
    apply (simp_all add: configuration_setters_def)
    apply (simp_all add: quiet_setters_def configuration_setters_def destroy_operations_def
        member_name_def glue_defs forwarding_shapes recording_compiler_def)
    done
  then show ?main
    using unit
    apply (simp only: Let_def)
    apply (intro conjI allI impI)
    apply (simp_all add: recorded_objects crossing_iff boundary_fallible destroy_operations_def
        quiet_setters_def configuration_setters_def
        TShader_parse_def TShader_parse1_def TProgram_link_def forwarding_shapes
        recording_compiler_def)
    done
next
  show ?exist
    by (intro conjI allI crossing_exists; rule boundary.intros)
qed

theorem setters_record_unchecked_witness:
  "objects (compiler sample_unit_process) (Addr 16) = Some []
   \<and> ''TShader_setEnvClient'' \<in> set configuration_setters
   \<and> crossing (recording_compiler sample_accepts sample_links sample_recorder)
       (quiet_setters (\<lambda>name args w. None))
       (''TShader_setEnvClient'', [APtr (Addr 16), AInt (Int32 99), AInt (Int32 0)])
       sample_unit_process
       (Returns RVoid
          (sample_unit_process\<lparr>compiler :=
             recorded ''setEnvClient'' [AInt (Int32 99), AInt (Int32 0)] (Addr 16)
               (compiler sample_unit_process)\<rparr>))
   \<and> crossing (recording_compiler sample_accepts sample_links sample_recorder)
       (quiet_setters (\<lambda>name args w. None))
       (''TShader_parse'',
        [APtr (Addr 16), APtr (Addr 8), AInt (Int32 450), AInt (Int32 0), ABool False,
         ABool False, AInt (Int32 0)])
       (sample_unit_process\<lparr>compiler :=
          recorded ''setEnvClient'' [AInt (Int32 99), AInt (Int32 0)] (Addr 16)
            (compiler sample_unit_process)\<rparr>)
       (Returns (RBool False)
          (sample_unit_process\<lparr>compiler :=
             recorded ''parse''
               [APtr (Addr 8), AInt (Int32 450), AInt (Int32 0), ABool False, ABool False,
                AInt (Int32 0)] (Addr 16)
               (recorded ''setEnvClient'' [AInt (Int32 99), AInt (Int32 0)] (Addr 16)
                  (compiler sample_unit_process))\<rparr>))"
proof -
  have unit: "objects (compiler sample_unit_process) (Addr 16) = Some []"
    by (simp add: sample_unit_process_def)
  have setter: "''TShader_setEnvClient'' \<in> set configuration_setters"
    by (simp add: configuration_setters_def)
  have call: "crossing (recording_compiler sample_accepts sample_links sample_recorder)
       (quiet_setters (\<lambda>name args w. None))
       (''TShader_setEnvClient'', APtr (Addr 16) # [AInt (Int32 99), AInt (Int32 0)])
       sample_unit_process
       (Returns RVoid
          (sample_unit_process\<lparr>compiler :=
             recorded ''setEnvClient'' [AInt (Int32 99), AInt (Int32 0)] (Addr 16)
               (compiler sample_unit_process)\<rparr>))"
    using crossing.crossing
      [OF boundary.TShader_setEnvClient
        [of "recording_compiler sample_accepts sample_links sample_recorder" "Addr 16"
          "Int32 99" "Int32 0" sample_unit_process],
        of "quiet_setters (\<lambda>name args w. None)"]
    by (simp add: TShader_setEnvClient_def forwarding_shapes recording_compiler_def
        quiet_setters_def destroy_operations_def)
  from setters_record_unchecked [OF unit setter call, THEN conjunct1] unit setter call
  show ?thesis
    by (simp add: Let_def member_name_def sample_accepts_def)
qed

subsection \<open>Destroying a program\<close>

text \<open>
  C5. With the destructor of the wrapped program class as the spec describes it,
  \<^verbatim>\<open>TProgram_destroy\<close> on a live program returns, releases that program and nothing
  else: the program leaves the live objects and its object is dropped; every
  CompilationUnit (attached or not) stays alive, the contents of its object are as
  before, and it can still be destroyed by its owner.
\<close>

theorem TProgram_destroy_keeps_units:
  assumes ok: "handles_ok \<sigma>" and prog: "prog \<in> set (programs \<sigma>)"
  shows "\<exists>\<sigma>'. TProgram_destroy (G\<lparr>TProgram'dtor := release_object\<rparr>) prog \<sigma> = Returns () \<sigma>'
      \<and> programs \<sigma>' = removeAll prog (programs \<sigma>)
      \<and> shaders \<sigma>' = shaders \<sigma>
      \<and> handles_ok \<sigma>'
      \<and> objects (compiler \<sigma>') = (objects (compiler \<sigma>))(prog := None)
      \<and> (\<forall>h \<in> set (shaders \<sigma>).
            objects (compiler \<sigma>') h = objects (compiler \<sigma>) h
            \<and> (\<exists>\<sigma>''. TShader_destroy (G\<lparr>TProgram'dtor := release_object\<rparr>) h \<sigma>' =
                  Returns () \<sigma>''))"
  using ok prog
  by (auto simp: TProgram_destroy_def TShader_destroy_def forwarding_shapes release_object_def
      handles_ok_def live_def distinct_removeAll)

theorem TProgram_destroy_keeps_units_witness:
  "handles_ok sample_process \<and> Addr 32 \<in> set (programs sample_process)
   \<and> (\<exists>\<sigma>'. TProgram_destroy (sample_glslang\<lparr>TProgram'dtor := release_object\<rparr>) (Addr 32)
          sample_process = Returns () \<sigma>'
        \<and> programs \<sigma>' = [] \<and> shaders \<sigma>' = [Addr 16]
        \<and> objects (compiler \<sigma>') (Addr 16) = Some 0
        \<and> objects (compiler \<sigma>') (Addr 32) = None)"
proof -
  have prog: "Addr 32 \<in> set (programs sample_process)"
    by (simp add: sample_process_def)
  from TProgram_destroy_keeps_units [OF sample_process_ok prog, of sample_glslang]
    sample_process_ok prog
  show ?thesis by (auto simp: sample_process_def)
qed

end
